theory Spec2Isabelle
  imports Complex_Main "HOL-Library.Word" "HOL-Library.Finite_Map"
begin

section \<open>Playlist generation of the m3u8 library (writer.go)\<close>

text \<open>
  The Go source is embedded function by function.  A method with a pointer receiver
  becomes a function that takes the playlist and returns the playlist after the call,
  paired with the returned \<open>error\<close> where the method has one (\<open>None\<close> is Go's
  \<open>nil\<close>).  Machine integers on which the code computes are words: \<open>uint64\<close>
  sequence numbers and the \<open>uint8\<close> protocol version.  Integers that are only compared
  with zero and printed (\<open>uint\<close>, \<open>uint32\<close>, \<open>int64\<close> fields) are the numbers they
  denote.  A \<open>float64\<close> is the real number it denotes, so the model covers the finite
  values; on those \<open><\<close> and \<open>math.Ceil\<close> are exact.
\<close>

subsection \<open>Data model\<close>

type_synonym uint8 = "8 word"
type_synonym uint64 = "64 word"
type_synonym float64 = real

text \<open>
  The two error values of the package: \<open>ErrPlaylistFull\<close> is the declared variable of
  that name, \<open>ErrPlaylistEmpty\<close> stands for \<open>errors.New("playlist is empty")\<close>.
\<close>

datatype error = ErrPlaylistFull | ErrPlaylistEmpty

text \<open>
  \<open>time.Time\<close> of the Go library: an instant (seconds and nanoseconds since
  January 1, year 1, 00:00:00 UTC) with a zone offset.
\<close>

record Time =
  wall_sec :: int
  wall_nsec :: nat
  zone_offset :: int

definition zero_Time :: Time where
  "zero_Time = \<lparr>wall_sec = 0, wall_nsec = 0, zone_offset = 0\<rparr>"

definition IsZero :: "Time \<Rightarrow> bool" where
  "IsZero t \<longleftrightarrow> wall_sec t = 0 \<and> wall_nsec t = 0"

text \<open>
  A Go map is a finite map.  A \<open>nil\<close> map and an empty map behave alike in every
  place of writer.go (a \<open>range\<close> over either runs no iteration; the setters allocate
  before the first store), so both are \<open>fmempty\<close>.

  The struct declarations are not part of writer.go; the records list the fields that
  writer.go reads and writes, under the names it uses.  Where two structs share a field
  name the record fields carry a prefix.
\<close>

record Key =
  Method :: string
  Key_URI :: string
  IV :: string
  Keyformat :: string
  Keyformatversions :: string

record InitMap =
  Map_URI :: string
  Map_Limit :: int
  Map_Offset :: int

datatype SCTE35Syntax = SCTE35_67_2014 | SCTE35_OATCLS

datatype SCTE35CueType = SCTE35Cue_Start | SCTE35Cue_Mid | SCTE35Cue_End

record SCTE =
  Syntax :: SCTE35Syntax
  CueType :: SCTE35CueType
  Cue :: string
  SCTE_ID :: string
  SCTE_Time :: float64
  Elapsed :: float64

record Daterange =
  DR_ID :: string
  Class :: "string option"
  StartDate :: Time
  EndDate :: "Time option"
  DR_Duration :: "int option"
  PlannedDuration :: "int option"
  X :: "(string, string) fmap"
  SCTE35Command :: "string option"
  SCTE35In :: "string option"
  SCTE35Out :: "string option"
  EndOnNext :: bool

text \<open>
  A \<open>CustomTag\<close> is an object supplied by the caller with the methods \<open>TagName()\<close>
  and \<open>Encode()\<close>; the latter returns a buffer or \<open>nil\<close>.  The model keeps the two
  results.
\<close>

record CustomTag =
  TagName :: string
  Tag_Encode :: "string option"

record MediaSegment =
  SeqId :: uint64
  Title :: string
  URI :: string
  Duration :: float64
  Limit :: int
  Offset :: int
  Key :: "Key option"
  Map :: "InitMap option"
  Discontinuity :: bool
  SCTE :: "SCTE option"
  ProgramDateTime :: Time
  Seg_Custom :: "(string, CustomTag) fmap"
  Dateranges :: "Daterange list"

text \<open>
  Modelled from the spec: the playlist type is one of none, event and video on demand;
  the declaration of \<open>MediaType\<close> and of its constants \<open>EVENT\<close> and \<open>VOD\<close> is not
  part of writer.go.  \<open>MediaType_None\<close> is the value 0.
\<close>

datatype MediaType = MediaType_None | EVENT | VOD

record WV =
  AudioChannels :: nat
  AudioFormat :: nat
  AudioProfileIDC :: nat
  AudioSampleSize :: nat
  AudioSamplingFrequency :: nat
  CypherVersion :: string
  ECM :: string
  VideoFormat :: nat
  VideoFrameRate :: nat
  VideoLevelIDC :: nat
  VideoProfileIDC :: nat
  VideoResolution :: string
  VideoSAR :: string

text \<open>
  \<open>Segments\<close> is a \<open>container/list\<close> of pointers to segments: front is the head of
  the HOL list, \<open>PushBack\<close> appends at the end.  A pointer is an address, and the
  memory that holds the segment objects is kept with the playlist: \<open>heap p a\<close> is the
  segment at address \<open>a\<close>, and \<open>next_addr p\<close> is the first address that no
  allocation has handed out yet.  The same address may occur in the list more than
  once.  \<open>winsize\<close> is a Go \<open>uint\<close>; it is only compared with the segment count.
\<close>

type_synonym addr = nat

record MediaPlaylist =
  TargetDuration :: float64
  SeqNo :: uint64
  Segments :: "addr list"
  Args :: string
  Iframe :: bool
  Closed :: bool
  MediaType :: MediaType
  DiscontinuitySeq :: uint64
  StartTime :: float64
  StartTimePrecise :: bool
  durationAsInt :: bool
  winsize :: nat
  ver :: uint8
  WV :: "WV option"
  Custom :: "(string, CustomTag) fmap"
  heap :: "addr \<Rightarrow> MediaSegment"
  next_addr :: addr

text \<open>The segments that the list points to, front first.\<close>

definition segments :: "MediaPlaylist \<Rightarrow> MediaSegment list" where
  "segments p = map (heap p) (Segments p)"

subsection \<open>Version negotiation\<close>

definition version :: "uint8 \<Rightarrow> uint8 \<Rightarrow> uint8" where
  "version ver0 newver = (if ver0 < newver then newver else ver0)"

subsection \<open>Sliding window and sequencing\<close>

text \<open>\<open>new(MediaSegment)\<close>: the zero value of the struct.\<close>

definition new_MediaSegment :: MediaSegment where
  "new_MediaSegment =
     \<lparr>SeqId = 0, Title = [], URI = [], Duration = 0, Limit = 0, Offset = 0, Key = None,
      Map = None, Discontinuity = False, SCTE = None, ProgramDateTime = zero_Time,
      Seg_Custom = fmempty, Dateranges = []\<rparr>"

text \<open>
  \<open>NewMediaPlaylist\<close>: every field has Go's zero value except the version, the empty
  list and the window size.  The constant \<open>minver\<close> is declared outside writer.go and is
  a parameter here.  No segment object has been allocated yet.
\<close>

definition NewMediaPlaylist :: "uint8 \<Rightarrow> nat \<Rightarrow> MediaPlaylist" where
  "NewMediaPlaylist minver w =
     \<lparr>TargetDuration = 0, SeqNo = 0, Segments = [], Args = [], Iframe = False,
      Closed = False, MediaType = MediaType_None, DiscontinuitySeq = 0, StartTime = 0,
      StartTimePrecise = False, durationAsInt = False, winsize = w, ver = minver,
      WV = None, Custom = fmempty, heap = (\<lambda>a. new_MediaSegment), next_addr = 0\<rparr>"

text \<open>
  An allocation of a segment object, by \<open>new(MediaSegment)\<close> in \<open>Append\<close> or by
  \<open>&MediaSegment{...}\<close> in the caller: the pointer to the new object and the memory
  after the allocation.
\<close>

definition alloc :: "MediaSegment \<Rightarrow> MediaPlaylist \<Rightarrow> addr \<times> MediaPlaylist" where
  "alloc seg p =
     (next_addr p, p\<lparr>heap := (heap p)(next_addr p := seg), next_addr := Suc (next_addr p)\<rparr>)"

definition Remove :: "MediaPlaylist \<Rightarrow> error option \<times> MediaPlaylist" where
  "Remove p =
     (if length (Segments p) = 0 then (Some ErrPlaylistEmpty, p)
      else
        let p1 = p\<lparr>Segments := tl (Segments p)\<rparr>;
            p2 = (if \<not> Closed p1 then p1\<lparr>SeqNo := SeqNo p1 + 1\<rparr> else p1)
        in (None, p2))"

text \<open>
  \<open>AppendSegment\<close> takes a pointer.  It writes the sequence id through the pointer,
  first the media sequence number and then, on a list with segments, the id read
  through the pointer at the back of the list plus 1; it pushes the pointer, and reads
  the duration through it.  When the pointer is already at the back of the list, the id
  read there is the one just written.  The argument is the address of a segment object:
  the model covers the calls with a pointer that is not \<open>nil\<close>.
\<close>

definition AppendSegment :: "addr \<Rightarrow> MediaPlaylist \<Rightarrow> error option \<times> MediaPlaylist" where
  "AppendSegment seg p =
     (let h1 = (heap p)(seg := (heap p seg)\<lparr>SeqId := SeqNo p\<rparr>);
          h2 = (if length (Segments p) > 0
                then h1(seg := (h1 seg)\<lparr>SeqId := SeqId (h1 (last (Segments p))) + 1\<rparr>)
                else h1);
          p1 = p\<lparr>heap := h2, Segments := Segments p @ [seg]\<rparr>;
          p2 = (if TargetDuration p1 < Duration (heap p1 seg)
                then p1\<lparr>TargetDuration := of_int \<lceil>Duration (heap p1 seg)\<rceil>\<rparr> else p1)
      in (None, p2))"

text \<open>\<open>Append\<close> allocates a segment, fills it in and appends the pointer to it.\<close>

definition Append :: "string \<Rightarrow> float64 \<Rightarrow> string \<Rightarrow> MediaPlaylist \<Rightarrow> error option \<times> MediaPlaylist" where
  "Append uri duration title p =
     (let (seg, p1) = alloc new_MediaSegment p;
          p2 = p1\<lparr>heap := (heap p1)
                 (seg := (heap p1 seg)\<lparr>URI := uri, Duration := duration, Title := title\<rparr>)\<rparr>
      in AppendSegment seg p2)"

text \<open>
  \<open>Slide\<close> has no result: the values returned by the \<open>Remove\<close> and the \<open>Append\<close> it
  calls are dropped, only their effect on the playlist remains.  \<open>Slide_calls\<close> is the
  body of \<open>Slide\<close> and keeps, beside the playlist after the call, the values that the
  calls made by \<open>Slide\<close> return, in the order of the calls.
\<close>

definition Slide_calls ::
  "string \<Rightarrow> float64 \<Rightarrow> string \<Rightarrow> MediaPlaylist \<Rightarrow> error option list \<times> MediaPlaylist" where
  "Slide_calls uri duration title p =
     (let (dropped1, p1) =
            (if \<not> Closed p \<and> length (Segments p) \<ge> winsize p
             then (let (err, q) = Remove p in ([err], q))
             else ([], p));
          (err, p2) = Append uri duration title p1
      in (dropped1 @ [err], p2))"

definition Slide :: "string \<Rightarrow> float64 \<Rightarrow> string \<Rightarrow> MediaPlaylist \<Rightarrow> MediaPlaylist" where
  "Slide uri duration title p = snd (Slide_calls uri duration title p)"

definition Count :: "MediaPlaylist \<Rightarrow> nat" where
  "Count p = length (Segments p)"

definition Close :: "MediaPlaylist \<Rightarrow> MediaPlaylist" where
  "Close p = p\<lparr>Closed := True\<rparr>"

text \<open>
  Modelled from the spec: \<open>last()\<close> is not part of writer.go; the per-segment setters
  apply to the most recently appended segment.  \<open>upd_last f p\<close> is the assignment
  through the pointer \<open>p.last()\<close>, the pointer at the back of the list; the setters call
  it on non-empty playlists only.
\<close>

definition upd_last :: "(MediaSegment \<Rightarrow> MediaSegment) \<Rightarrow> MediaPlaylist \<Rightarrow> MediaPlaylist" where
  "upd_last f p = p\<lparr>heap := (heap p)(last (Segments p) := f (heap p (last (Segments p))))\<rparr>"

definition DurationAsInt :: "bool \<Rightarrow> MediaPlaylist \<Rightarrow> MediaPlaylist" where
  "DurationAsInt yes p =
     (let p1 = (if yes then p\<lparr>ver := version (ver p) 3\<rparr> else p)
      in p1\<lparr>durationAsInt := yes\<rparr>)"

definition SetIframeOnly :: "MediaPlaylist \<Rightarrow> MediaPlaylist" where
  "SetIframeOnly p = (p\<lparr>ver := version (ver p) 4\<rparr>)\<lparr>Iframe := True\<rparr>"

definition SetKey ::
  "string \<Rightarrow> string \<Rightarrow> string \<Rightarrow> string \<Rightarrow> string \<Rightarrow> MediaPlaylist \<Rightarrow> error option \<times> MediaPlaylist" where
  "SetKey method uri iv keyformat keyformatversions p =
     (if length (Segments p) = 0 then (Some ErrPlaylistEmpty, p)
      else
        let p1 = (if keyformat \<noteq> [] \<or> keyformatversions \<noteq> []
                  then p\<lparr>ver := version (ver p) 5\<rparr> else p)
        in (None, upd_last (\<lambda>seg. seg\<lparr>Key := Some \<lparr>Method = method, Key_URI = uri, IV = iv,
                     Keyformat = keyformat, Keyformatversions = keyformatversions\<rparr>\<rparr>) p1))"

definition SetMap :: "string \<Rightarrow> int \<Rightarrow> int \<Rightarrow> MediaPlaylist \<Rightarrow> error option \<times> MediaPlaylist" where
  "SetMap uri limit offset p =
     (if length (Segments p) = 0 then (Some ErrPlaylistEmpty, p)
      else
        let p1 = p\<lparr>ver := version (ver p) 5\<rparr>
        in (None, upd_last (\<lambda>seg. seg\<lparr>Map := Some \<lparr>Map_URI = uri, Map_Limit = limit,
                     Map_Offset = offset\<rparr>\<rparr>) p1))"

definition SetRange :: "int \<Rightarrow> int \<Rightarrow> MediaPlaylist \<Rightarrow> error option \<times> MediaPlaylist" where
  "SetRange limit offset p =
     (if length (Segments p) = 0 then (Some ErrPlaylistEmpty, p)
      else
        let p1 = p\<lparr>ver := version (ver p) 4\<rparr>;
            p2 = upd_last (\<lambda>seg. seg\<lparr>Limit := limit\<rparr>) p1
        in (None, upd_last (\<lambda>seg. seg\<lparr>Offset := offset\<rparr>) p2))"

definition SetSCTE35 :: "SCTE \<Rightarrow> MediaPlaylist \<Rightarrow> error option \<times> MediaPlaylist" where
  "SetSCTE35 scte35 p =
     (if length (Segments p) = 0 then (Some ErrPlaylistEmpty, p)
      else (None, upd_last (\<lambda>seg. seg\<lparr>SCTE := Some scte35\<rparr>) p))"

definition SetSCTE :: "string \<Rightarrow> string \<Rightarrow> float64 \<Rightarrow> MediaPlaylist \<Rightarrow> error option \<times> MediaPlaylist" where
  "SetSCTE cue id0 time p =
     SetSCTE35 \<lparr>Syntax = SCTE35_67_2014, CueType = SCTE35Cue_Start, Cue = cue, SCTE_ID = id0,
                SCTE_Time = time, Elapsed = 0\<rparr> p"

definition SetDateranges :: "Daterange list \<Rightarrow> MediaPlaylist \<Rightarrow> error option \<times> MediaPlaylist" where
  "SetDateranges dateranges p =
     (if length (Segments p) = 0 then (Some ErrPlaylistEmpty, p)
      else (None, upd_last (\<lambda>seg. seg\<lparr>Dateranges := dateranges\<rparr>) p))"

definition SetDiscontinuity :: "MediaPlaylist \<Rightarrow> error option \<times> MediaPlaylist" where
  "SetDiscontinuity p =
     (if length (Segments p) = 0 then (Some ErrPlaylistEmpty, p)
      else (None, upd_last (\<lambda>seg. seg\<lparr>Discontinuity := True\<rparr>) p))"

definition SetProgramDateTime :: "Time \<Rightarrow> MediaPlaylist \<Rightarrow> error option \<times> MediaPlaylist" where
  "SetProgramDateTime v p =
     (if length (Segments p) = 0 then (Some ErrPlaylistEmpty, p)
      else (None, upd_last (\<lambda>seg. seg\<lparr>ProgramDateTime := v\<rparr>) p))"

definition SetCustomTag :: "CustomTag \<Rightarrow> MediaPlaylist \<Rightarrow> MediaPlaylist" where
  "SetCustomTag t p = p\<lparr>Custom := fmupd (TagName t) t (Custom p)\<rparr>"

definition SetCustomSegmentTag :: "CustomTag \<Rightarrow> MediaPlaylist \<Rightarrow> error option \<times> MediaPlaylist" where
  "SetCustomSegmentTag t p =
     (if length (Segments p) = 0 then (Some ErrPlaylistEmpty, p)
      else (None, upd_last (\<lambda>seg. seg\<lparr>Seg_Custom := fmupd (TagName t) t (Seg_Custom seg)\<rparr>) p))"

definition Version :: "MediaPlaylist \<Rightarrow> uint8" where
  "Version p = ver p"

definition SetVersion :: "uint8 \<Rightarrow> MediaPlaylist \<Rightarrow> MediaPlaylist" where
  "SetVersion v p = p\<lparr>ver := v\<rparr>"

definition WinSize :: "MediaPlaylist \<Rightarrow> nat" where
  "WinSize p = winsize p"

definition SetWinSize :: "nat \<Rightarrow> MediaPlaylist \<Rightarrow> MediaPlaylist" where
  "SetWinSize w p = p\<lparr>winsize := w\<rparr>"

subsection \<open>Sequences of calls\<close>

text \<open>
  A caller's sequence of window operations.  A \<open>Remove\<close> that fails returns the
  playlist as it was, and the caller goes on with it.
\<close>

datatype op = OpAppend string float64 string | OpRemove | OpSlide string float64 string

fun apply_op :: "op \<Rightarrow> MediaPlaylist \<Rightarrow> MediaPlaylist" where
  "apply_op (OpAppend uri duration title) p = snd (Append uri duration title p)"
| "apply_op OpRemove p = snd (Remove p)"
| "apply_op (OpSlide uri duration title) p = Slide uri duration title p"

definition run :: "op list \<Rightarrow> MediaPlaylist \<Rightarrow> MediaPlaylist" where
  "run ops p = fold apply_op ops p"

definition appends :: "(string \<times> float64 \<times> string) list \<Rightarrow> op list" where
  "appends xs = map (\<lambda>(uri, duration, title). OpAppend uri duration title) xs"

text \<open>The durations a sequence of operations appends, in order.\<close>

fun appended :: "op \<Rightarrow> float64 list" where
  "appended (OpAppend uri duration title) = [duration]"
| "appended OpRemove = []"
| "appended (OpSlide uri duration title) = [duration]"

definition durations :: "op list \<Rightarrow> float64 list" where
  "durations ops = concat (map appended ops)"

text \<open>The sequence ids of the retained segments, head first.\<close>

definition seq_ids :: "MediaPlaylist \<Rightarrow> uint64 list" where
  "seq_ids p = map SeqId (segments p)"

text \<open>
  A list of ids is contiguous when it is \<open>h, h + 1, h + 2, \<dots>\<close> for its head \<open>h\<close>,
  in \<open>uint64\<close> arithmetic.
\<close>

definition contiguous :: "uint64 list \<Rightarrow> bool" where
  "contiguous ids \<longleftrightarrow> ids = map (\<lambda>i. hd ids + of_nat i) [0..<length ids]"

text \<open>
  A caller's sequence of window operations that may also hand a segment object of its
  own to \<open>AppendSegment\<close>.
\<close>

datatype call =
    DoAppend string float64 string
  | DoAppendSegment addr
  | DoRemove
  | DoSlide string float64 string

fun apply_call :: "call \<Rightarrow> MediaPlaylist \<Rightarrow> MediaPlaylist" where
  "apply_call (DoAppend uri duration title) p = snd (Append uri duration title p)"
| "apply_call (DoAppendSegment seg) p = snd (AppendSegment seg p)"
| "apply_call DoRemove p = snd (Remove p)"
| "apply_call (DoSlide uri duration title) p = Slide uri duration title p"

fun run_calls :: "call list \<Rightarrow> MediaPlaylist \<Rightarrow> MediaPlaylist" where
  "run_calls [] p = p"
| "run_calls (c # cs) p = run_calls cs (apply_call c p)"

fun is_append :: "call \<Rightarrow> bool" where
  "is_append (DoAppend uri duration title) = True"
| "is_append (DoAppendSegment seg) = True"
| "is_append DoRemove = False"
| "is_append (DoSlide uri duration title) = False"

text \<open>Every pointer in the list points to an object that has been allocated.\<close>

definition allocated :: "MediaPlaylist \<Rightarrow> bool" where
  "allocated p \<longleftrightarrow> list_all (\<lambda>a. a < next_addr p) (Segments p)"

text \<open>
  No call hands to \<open>AppendSegment\<close> a segment object that the playlist retains at that
  moment: each pointer passed is that of an allocated object and is not in the list.
\<close>

fun new_to_list :: "call \<Rightarrow> MediaPlaylist \<Rightarrow> bool" where
  "new_to_list (DoAppendSegment seg) p \<longleftrightarrow> seg < next_addr p \<and> seg \<notin> set (Segments p)"
| "new_to_list c p \<longleftrightarrow> True"

fun fresh_calls :: "call list \<Rightarrow> MediaPlaylist \<Rightarrow> bool" where
  "fresh_calls [] p \<longleftrightarrow> True"
| "fresh_calls (c # cs) p \<longleftrightarrow> new_to_list c p \<and> fresh_calls cs (apply_call c p)"

text \<open>
  The calls that raise the version, and the version each of them passes to
  \<open>version\<close> (0 when it passes none).
\<close>

datatype setter =
    CallDurationAsInt bool
  | CallSetIframeOnly
  | CallSetRange int int
  | CallSetKey string string string string string
  | CallSetMap string int int

fun apply_setter :: "setter \<Rightarrow> MediaPlaylist \<Rightarrow> MediaPlaylist" where
  "apply_setter (CallDurationAsInt yes) p = DurationAsInt yes p"
| "apply_setter CallSetIframeOnly p = SetIframeOnly p"
| "apply_setter (CallSetRange limit offset) p = snd (SetRange limit offset p)"
| "apply_setter (CallSetKey method uri iv keyformat keyformatversions) p =
     snd (SetKey method uri iv keyformat keyformatversions p)"
| "apply_setter (CallSetMap uri limit offset) p = snd (SetMap uri limit offset p)"

definition run_setters :: "setter list \<Rightarrow> MediaPlaylist \<Rightarrow> MediaPlaylist" where
  "run_setters ss p = fold apply_setter ss p"

fun required :: "setter \<Rightarrow> uint8" where
  "required (CallDurationAsInt yes) = (if yes then 3 else 0)"
| "required CallSetIframeOnly = 4"
| "required (CallSetRange limit offset) = 4"
| "required (CallSetKey method uri iv keyformat keyformatversions) =
     (if keyformat \<noteq> [] \<or> keyformatversions \<noteq> [] then 5 else 0)"
| "required (CallSetMap uri limit offset) = 5"


subsection \<open>Text formatting\<close>

text \<open>
  A \<open>bytes.Buffer\<close> is the string written so far; the model builds the text of each
  block of writes and concatenates the blocks in the order of the source.
\<close>

abbreviation dq :: string where
  "dq \<equiv> [CHR 0x22]"

abbreviation nl :: string where
  "nl \<equiv> [CHR 0x0A]"

text \<open>\<open>strconv.FormatUint(n, 10)\<close> and \<open>strconv.FormatInt(i, 10)\<close>.\<close>

fun FormatUint :: "nat \<Rightarrow> string" where
  "FormatUint n =
     (if n < 10 then [''0123456789'' ! n]
      else FormatUint (n div 10) @ [''0123456789'' ! (n mod 10)])"

declare FormatUint.simps [simp del]

definition FormatInt :: "int \<Rightarrow> string" where
  "FormatInt i = (if i < 0 then ''-'' @ FormatUint (nat (- i)) else FormatUint (nat i))"

definition strver :: "uint8 \<Rightarrow> string" where
  "strver v = FormatUint (unat v)"

text \<open>
  What the encoder takes from outside writer.go: \<open>strconv.FormatFloat(f, 'f', prec,
  bitSize)\<close>, \<open>Duration.Seconds()\<close> and \<open>Time.Format(layout)\<close> of the Go library,
  the layout constant \<open>DATETIME\<close> of the package, and the value of the conversion
  \<open>int64(f)\<close> for a float outside the range of \<open>int64\<close>, which Go leaves to the
  implementation.  They are parameters of the encoder.
\<close>

record golib =
  FormatFloat :: "float64 \<Rightarrow> int \<Rightarrow> nat \<Rightarrow> string"
  Seconds :: "int \<Rightarrow> float64"
  Format :: "Time \<Rightarrow> string \<Rightarrow> string"
  DATETIME :: string
  int64_out_of_range :: "float64 \<Rightarrow> int"

text \<open>
  The conversion \<open>int64(f)\<close>: a float within the range of \<open>int64\<close> is truncated
  towards zero.  \<open>math.Ceil(f)\<close> is \<open>of_int \<lceil>f\<rceil>\<close>.
\<close>

definition int64 :: "golib \<Rightarrow> float64 \<Rightarrow> int" where
  "int64 lib f =
     (if - (2 ^ 63) \<le> f \<and> f < 2 ^ 63 then (if 0 \<le> f then \<lfloor>f\<rfloor> else \<lceil>f\<rceil>)
      else int64_out_of_range lib f)"

text \<open>
  The lines of the output that belong to the variants of a master playlist and to the
  segments of a media playlist are kept with the tag that the block writing them emits.
\<close>

datatype tag =
    EXT_X_MEDIA | EXT_X_I_FRAME_STREAM_INF | EXT_X_STREAM_INF
  | EXT_SCTE35 | EXT_OATCLS_SCTE35 | EXT_X_CUE_OUT | EXT_X_CUE_OUT_CONT | EXT_X_CUE_IN
  | EXT_X_DATERANGE | EXT_X_KEY | EXT_X_DISCONTINUITY | EXT_X_MAP
  | EXT_X_PROGRAM_DATE_TIME | EXT_X_BYTERANGE | CUSTOM | EXTINF

type_synonym line = "tag \<times> string"

definition text_of :: "line list \<Rightarrow> string" where
  "text_of ls = concat (map snd ls)"

definition lines_with :: "tag \<Rightarrow> line list \<Rightarrow> line list" where
  "lines_with t ls = filter (\<lambda>l. fst l = t) ls"

text \<open>
  \<open>for k, v := range m\<close>: Go visits every entry of the map once, in an order that the
  language leaves open and that may differ from one loop to the next.  \<open>range_map m es\<close>
  says that \<open>es\<close> is such a visit of \<open>m\<close>.
\<close>

definition range_map :: "('k, 'v) fmap \<Rightarrow> ('k \<times> 'v) list \<Rightarrow> bool" where
  "range_map m es \<longleftrightarrow> distinct (map fst es) \<and> fmap_of_list es = m"

text \<open>The loop over custom tags, for the entries in the order visited.\<close>

definition encode_custom :: "(string \<times> CustomTag) list \<Rightarrow> line list" where
  "encode_custom es =
     concat (map (\<lambda>(name, v). case Tag_Encode v of
                                 Some customBuf \<Rightarrow> [(CUSTOM, customBuf @ nl)]
                               | None \<Rightarrow> []) es)"

subsection \<open>Media playlist encoding\<close>

definition encode_media_header :: "MediaPlaylist \<Rightarrow> string" where
  "encode_media_header p = ''#EXTM3U'' @ nl @ ''#EXT-X-VERSION:'' @ strver (ver p) @ nl"

definition encode_media_tags :: "golib \<Rightarrow> MediaPlaylist \<Rightarrow> string" where
  "encode_media_tags lib p =
     (case MediaType p of
        MediaType_None \<Rightarrow> []
      | EVENT \<Rightarrow> ''#EXT-X-PLAYLIST-TYPE:'' @ ''EVENT'' @ nl @ ''#EXT-X-ALLOW-CACHE:NO'' @ nl
      | VOD \<Rightarrow> ''#EXT-X-PLAYLIST-TYPE:'' @ ''VOD'' @ nl) @
     ''#EXT-X-MEDIA-SEQUENCE:'' @ FormatUint (unat (SeqNo p)) @ nl @
     ''#EXT-X-TARGETDURATION:'' @ FormatInt (int64 lib (of_int \<lceil>TargetDuration p\<rceil>)) @ nl @
     (if StartTime p > 0
      then ''#EXT-X-START:TIME-OFFSET='' @ FormatFloat lib (StartTime p) (- 1) 64 @
           (if StartTimePrecise p then '',PRECISE=YES'' else []) @ nl
      else []) @
     (if DiscontinuitySeq p \<noteq> 0
      then ''#EXT-X-DISCONTINUITY-SEQUENCE:'' @ FormatUint (unat (DiscontinuitySeq p)) @ nl
      else []) @
     (if Iframe p then ''#EXT-X-I-FRAMES-ONLY'' @ nl else [])"

definition encode_WV :: "WV option \<Rightarrow> string" where
  "encode_WV wv =
     (case wv of
        None \<Rightarrow> []
      | Some w \<Rightarrow>
          (if AudioChannels w \<noteq> 0
           then ''#WV-AUDIO-CHANNELS '' @ FormatUint (AudioChannels w) @ nl else []) @
          (if AudioFormat w \<noteq> 0
           then ''#WV-AUDIO-FORMAT '' @ FormatUint (AudioFormat w) @ nl else []) @
          (if AudioProfileIDC w \<noteq> 0
           then ''#WV-AUDIO-PROFILE-IDC '' @ FormatUint (AudioProfileIDC w) @ nl else []) @
          (if AudioSampleSize w \<noteq> 0
           then ''#WV-AUDIO-SAMPLE-SIZE '' @ FormatUint (AudioSampleSize w) @ nl else []) @
          (if AudioSamplingFrequency w \<noteq> 0
           then ''#WV-AUDIO-SAMPLING-FREQUENCY '' @ FormatUint (AudioSamplingFrequency w) @ nl
           else []) @
          (if CypherVersion w \<noteq> []
           then ''#WV-CYPHER-VERSION '' @ CypherVersion w @ nl else []) @
          (if ECM w \<noteq> [] then ''#WV-ECM '' @ ECM w @ nl else []) @
          (if VideoFormat w \<noteq> 0
           then ''#WV-VIDEO-FORMAT '' @ FormatUint (VideoFormat w) @ nl else []) @
          (if VideoFrameRate w \<noteq> 0
           then ''#WV-VIDEO-FRAME-RATE '' @ FormatUint (VideoFrameRate w) @ nl else []) @
          (if VideoLevelIDC w \<noteq> 0
           then ''#WV-VIDEO-LEVEL-IDC'' @ FormatUint (VideoLevelIDC w) @ nl else []) @
          (if VideoProfileIDC w \<noteq> 0
           then ''#WV-VIDEO-PROFILE-IDC '' @ FormatUint (VideoProfileIDC w) @ nl else []) @
          (if VideoResolution w \<noteq> []
           then ''#WV-VIDEO-RESOLUTION '' @ VideoResolution w @ nl else []) @
          (if VideoSAR w \<noteq> [] then ''#WV-VIDEO-SAR '' @ VideoSAR w @ nl else []))"

definition encode_SCTE :: "golib \<Rightarrow> SCTE option \<Rightarrow> line list" where
  "encode_SCTE lib scte =
     (case scte of
        None \<Rightarrow> []
      | Some s \<Rightarrow>
          (case Syntax s of
             SCTE35_67_2014 \<Rightarrow>
               [(EXT_SCTE35,
                 ''#EXT-SCTE35:'' @ ''CUE='' @ dq @ Cue s @ dq @
                 (if SCTE_ID s \<noteq> [] then '',ID='' @ dq @ SCTE_ID s @ dq else []) @
                 (if SCTE_Time s \<noteq> 0
                  then '',TIME='' @ FormatFloat lib (SCTE_Time s) (- 1) 64 else []) @
                 nl)]
           | SCTE35_OATCLS \<Rightarrow>
               (case CueType s of
                  SCTE35Cue_Start \<Rightarrow>
                    [(EXT_OATCLS_SCTE35, ''#EXT-OATCLS-SCTE35:'' @ Cue s @ nl),
                     (EXT_X_CUE_OUT,
                      ''#EXT-X-CUE-OUT:'' @ FormatFloat lib (SCTE_Time s) (- 1) 64 @ nl)]
                | SCTE35Cue_Mid \<Rightarrow>
                    [(EXT_X_CUE_OUT_CONT,
                      ''#EXT-X-CUE-OUT-CONT:'' @ ''ElapsedTime='' @
                      FormatFloat lib (Elapsed s) (- 1) 64 @
                      '',Duration='' @ FormatFloat lib (SCTE_Time s) (- 1) 64 @
                      '',SCTE35='' @ Cue s @ nl)]
                | SCTE35Cue_End \<Rightarrow> [(EXT_X_CUE_IN, ''#EXT-X-CUE-IN'' @ nl)])))"

text \<open>
  One date range; \<open>xs\<close> are the entries of its \<open>X\<close> map in the order in which the
  inner loop visits them.
\<close>

definition encode_daterange :: "golib \<Rightarrow> Daterange \<Rightarrow> (string \<times> string) list \<Rightarrow> line" where
  "encode_daterange lib daterange xs =
     (EXT_X_DATERANGE,
      ''#EXT-X-DATERANGE:'' @ ''ID='' @ dq @ DR_ID daterange @ dq @
      (case Class daterange of Some c \<Rightarrow> '',CLASS='' @ dq @ c @ dq | None \<Rightarrow> []) @
      '',START-DATE='' @ dq @ Format lib (StartDate daterange) (DATETIME lib) @ dq @
      (case EndDate daterange of
         Some e \<Rightarrow> '',END-DATE='' @ dq @ Format lib e (DATETIME lib) @ dq
       | None \<Rightarrow> []) @
      (case DR_Duration daterange of
         Some d \<Rightarrow> '',DURATION='' @ FormatFloat lib (Seconds lib d) (- 1) 64
       | None \<Rightarrow> []) @
      (case PlannedDuration daterange of
         Some d \<Rightarrow> '',PLANNED-DURATION='' @ FormatFloat lib (Seconds lib d) (- 1) 64
       | None \<Rightarrow> []) @
      concat (map (\<lambda>(attr, v). '',X-'' @ attr @ ''='' @ dq @ v @ dq) xs) @
      (case SCTE35Command daterange of
         Some c \<Rightarrow> '',SCTE35-CMD='' @ dq @ c @ dq | None \<Rightarrow> []) @
      (case SCTE35In daterange of Some c \<Rightarrow> '',SCTE35-IN='' @ dq @ c @ dq | None \<Rightarrow> []) @
      (case SCTE35Out daterange of Some c \<Rightarrow> '',SCTE35-OUT='' @ dq @ c @ dq | None \<Rightarrow> []) @
      (if EndOnNext daterange then '',END-ON-NEXT=YES'' else []) @
      nl)"

text \<open>
  Modelled from the spec: the methods \<open>Key.Equal\<close> and \<open>Map.Equal\<close> are not part of
  writer.go.  Two keys are equal iff all five fields match; maps are equal by value.
\<close>

definition Key_Equal :: "Key \<Rightarrow> Key \<Rightarrow> bool" where
  "Key_Equal k other \<longleftrightarrow>
     Method k = Method other \<and> Key_URI k = Key_URI other \<and> IV k = IV other \<and>
     Keyformat k = Keyformat other \<and> Keyformatversions k = Keyformatversions other"

definition Map_Equal :: "InitMap \<Rightarrow> InitMap \<Rightarrow> bool" where
  "Map_Equal m other \<longleftrightarrow>
     Map_URI m = Map_URI other \<and> Map_Limit m = Map_Limit other \<and>
     Map_Offset m = Map_Offset other"

text \<open>The \<open>#EXT-X-KEY\<close> tag of a key and the \<open>#EXT-X-MAP\<close> tag of a map.\<close>

definition key_line :: "Key \<Rightarrow> line" where
  "key_line k =
     (EXT_X_KEY,
      ''#EXT-X-KEY:'' @ ''METHOD='' @ Method k @
      (if Method k \<noteq> ''NONE''
       then '',URI='' @ dq @ Key_URI k @ dq @
            (if IV k \<noteq> [] then '',IV='' @ IV k else []) @
            (if Keyformat k \<noteq> [] then '',KEYFORMAT='' @ dq @ Keyformat k @ dq else []) @
            (if Keyformatversions k \<noteq> []
             then '',KEYFORMATVERSIONS='' @ dq @ Keyformatversions k @ dq else [])
       else []) @
      nl)"

definition map_line :: "InitMap \<Rightarrow> line" where
  "map_line m =
     (EXT_X_MAP,
      ''#EXT-X-MAP:'' @ ''URI='' @ dq @ Map_URI m @ dq @
      (if Map_Limit m > 0
       then '',BYTERANGE='' @ FormatInt (Map_Limit m) @ ''@'' @ FormatInt (Map_Offset m)
       else []) @
      nl)"

text \<open>
  The two guarded blocks of the loop: \<open>seg.Key != nil && (lastKey == nil ||
  !seg.Key.Equal(lastKey))\<close>, and the same for the map.
\<close>

definition encode_key :: "Key option \<Rightarrow> MediaSegment \<Rightarrow> line list" where
  "encode_key lastKey seg =
     (case Key seg of
        None \<Rightarrow> []
      | Some k \<Rightarrow>
          if (case lastKey of None \<Rightarrow> True | Some l \<Rightarrow> \<not> Key_Equal k l)
          then [key_line k] else [])"

definition encode_map :: "InitMap option \<Rightarrow> MediaSegment \<Rightarrow> line list" where
  "encode_map lastMap seg =
     (case Map seg of
        None \<Rightarrow> []
      | Some m \<Rightarrow>
          if (case lastMap of None \<Rightarrow> True | Some l \<Rightarrow> \<not> Map_Equal m l)
          then [map_line m] else [])"

text \<open>
  The duration text of the \<open>#EXTINF\<close> line.  \<open>duration_text\<close> is what the loop
  stores in the cache of one \<open>Encode\<close> call; \<open>encode_duration\<close> is the lookup: the
  text written and the cache after it.
\<close>

definition duration_text :: "golib \<Rightarrow> MediaPlaylist \<Rightarrow> float64 \<Rightarrow> string" where
  "duration_text lib p d =
     (if durationAsInt p then FormatInt (int64 lib (of_int \<lceil>d\<rceil>)) else FormatFloat lib d 3 32)"

definition encode_duration ::
  "golib \<Rightarrow> MediaPlaylist \<Rightarrow> (float64 \<rightharpoonup> string) \<Rightarrow> float64 \<Rightarrow> string \<times> (float64 \<rightharpoonup> string)" where
  "encode_duration lib p durationCache d =
     (case durationCache d of
        Some str \<Rightarrow> (str, durationCache)
      | None \<Rightarrow> (duration_text lib p d, durationCache(d \<mapsto> duration_text lib p d)))"

text \<open>The \<open>#EXTINF\<close> line of a segment with its URI line.\<close>

definition extinf_line :: "MediaPlaylist \<Rightarrow> MediaSegment \<Rightarrow> string \<Rightarrow> line" where
  "extinf_line p seg str =
     (EXTINF,
      ''#EXTINF:'' @ str @ '','' @ Title seg @ nl @
      URI seg @ (if Args p \<noteq> [] then ''?'' @ Args p else []) @ nl)"

text \<open>The three remaining guarded blocks of the loop.\<close>

definition encode_discontinuity :: "MediaSegment \<Rightarrow> line list" where
  "encode_discontinuity seg =
     (if Discontinuity seg then [(EXT_X_DISCONTINUITY, ''#EXT-X-DISCONTINUITY'' @ nl)] else [])"

definition encode_program_date_time :: "golib \<Rightarrow> MediaSegment \<Rightarrow> line list" where
  "encode_program_date_time lib seg =
     (if \<not> IsZero (ProgramDateTime seg)
      then [(EXT_X_PROGRAM_DATE_TIME,
             ''#EXT-X-PROGRAM-DATE-TIME:'' @ Format lib (ProgramDateTime seg) (DATETIME lib) @ nl)]
      else [])"

definition encode_byterange :: "MediaSegment \<Rightarrow> line list" where
  "encode_byterange seg =
     (if Limit seg > 0
      then [(EXT_X_BYTERANGE,
             ''#EXT-X-BYTERANGE:'' @ FormatInt (Limit seg) @ ''@'' @ FormatInt (Offset seg) @ nl)]
      else [])"

text \<open>The variables that the loop over the segments carries from one segment to the next.\<close>

record loop_vars =
  lastMap :: "InitMap option"
  lastKey :: "Key option"
  durationCache :: "float64 \<rightharpoonup> string"

definition loop_init :: loop_vars where
  "loop_init = \<lparr>lastMap = None, lastKey = None, durationCache = Map.empty\<rparr>"

text \<open>
  One turn of the loop: the lines written for \<open>seg\<close> and the loop variables after it.
  \<open>xss\<close> holds, for each date range of the segment, the visit of its \<open>X\<close> map, and
  \<open>cs\<close> is the visit of the segment's custom tags.
\<close>

definition encode_segment ::
  "golib \<Rightarrow> MediaPlaylist \<Rightarrow> loop_vars \<Rightarrow> MediaSegment \<Rightarrow> (string \<times> string) list list \<Rightarrow>
   (string \<times> CustomTag) list \<Rightarrow> line list \<times> loop_vars" where
  "encode_segment lib p vars seg xss cs =
     (let (str, cache) = encode_duration lib p (durationCache vars) (Duration seg)
      in (encode_SCTE lib (SCTE seg) @
          map2 (encode_daterange lib) (Dateranges seg) xss @
          encode_key (lastKey vars) seg @
          encode_discontinuity seg @
          encode_map (lastMap vars) seg @
          encode_program_date_time lib seg @
          encode_byterange seg @
          encode_custom cs @
          [extinf_line p seg str],
          \<lparr>lastMap = Map seg, lastKey = Key seg, durationCache = cache\<rparr>))"

text \<open>
  The loop over the segments, front to back: for every segment the lines written for
  it.  Each turn visits the maps of its segment in some order.
\<close>

inductive encode_segments ::
  "golib \<Rightarrow> MediaPlaylist \<Rightarrow> loop_vars \<Rightarrow> MediaSegment list \<Rightarrow> line list list \<Rightarrow> bool"
  for lib :: golib and p :: MediaPlaylist where
  encode_segments_Nil: "encode_segments lib p vars [] []"
| encode_segments_Cons:
    "list_all2 (\<lambda>daterange xs. range_map (X daterange) xs) (Dateranges seg) xss \<Longrightarrow>
     range_map (Seg_Custom seg) cs \<Longrightarrow>
     encode_segment lib p vars seg xss cs = (ls, vars') \<Longrightarrow>
     encode_segments lib p vars' segs out \<Longrightarrow>
     encode_segments lib p vars (seg # segs) (ls # out)"

text \<open>
  \<open>MediaPlaylist.Encode\<close>: \<open>MediaPlaylist_Encode lib p buf\<close> holds when a call on the
  playlist \<open>p\<close> can return the text \<open>buf\<close>.
\<close>

inductive MediaPlaylist_Encode :: "golib \<Rightarrow> MediaPlaylist \<Rightarrow> string \<Rightarrow> bool"
  for lib :: golib and p :: MediaPlaylist where
  MediaPlaylist_EncodeI:
    "range_map (Custom p) cs \<Longrightarrow>
     encode_segments lib p loop_init (segments p) out \<Longrightarrow>
     MediaPlaylist_Encode lib p
       (encode_media_header p @ text_of (encode_custom cs) @ encode_media_tags lib p @
        encode_WV (WV p) @ text_of (concat out) @
        (if Closed p then ''#EXT-X-ENDLIST'' @ nl else []))"


subsection \<open>Master playlist\<close>

record Alternative =
  GroupId :: string
  Alt_URI :: string
  Type :: string
  Language :: string
  Alt_Name :: string
  Default :: bool
  Autoselect :: string
  Forced :: string
  Characteristics :: string
  Alt_Subtitles :: string
  InstreamID :: string
  Channels :: string

record VariantParams =
  ProgramId :: nat
  Bandwidth :: nat
  AverageBandwidth :: nat
  Codecs :: string
  Resolution :: string
  Audio :: string
  Video :: string
  Subtitles :: string
  Captions :: string
  Name :: string
  VP_Iframe :: bool
  VideoRange :: string
  HDCPLevel :: string
  FrameRate :: float64
  Alternatives :: "Alternative list"

text \<open>
  A \<open>Variant\<close> embeds its \<open>VariantParams\<close>; \<open>Chunklist\<close> points to a media
  playlist or is \<open>nil\<close>, and writer.go only stores it.
\<close>

record Variant =
  Var_URI :: string
  Chunklist :: "MediaPlaylist option"
  Params :: VariantParams

record MasterPlaylist =
  Variants :: "Variant list"
  M_Args :: string
  M_ver :: uint8
  independentSegments :: bool
  M_Custom :: "(string, CustomTag) fmap"

definition NewMasterPlaylist :: "uint8 \<Rightarrow> MasterPlaylist" where
  "NewMasterPlaylist minver =
     \<lparr>Variants = [], M_Args = [], M_ver = minver, independentSegments = False,
      M_Custom = fmempty\<rparr>"

definition Master_Append ::
  "string \<Rightarrow> MediaPlaylist option \<Rightarrow> VariantParams \<Rightarrow> MasterPlaylist \<Rightarrow> MasterPlaylist" where
  "Master_Append uri chunklist params p =
     (let v = \<lparr>Var_URI = uri, Chunklist = chunklist, Params = params\<rparr>;
          p1 = p\<lparr>Variants := Variants p @ [v]\<rparr>
      in if length (Alternatives (Params v)) > 0
         then p1\<lparr>M_ver := version (M_ver p1) 4\<rparr> else p1)"

definition Master_SetCustomTag :: "CustomTag \<Rightarrow> MasterPlaylist \<Rightarrow> MasterPlaylist" where
  "Master_SetCustomTag t p = p\<lparr>M_Custom := fmupd (TagName t) t (M_Custom p)\<rparr>"

definition Master_SetVersion :: "uint8 \<Rightarrow> MasterPlaylist \<Rightarrow> MasterPlaylist" where
  "Master_SetVersion v p = p\<lparr>M_ver := v\<rparr>"

definition IndependentSegments :: "MasterPlaylist \<Rightarrow> bool" where
  "IndependentSegments p = independentSegments p"

definition SetIndependentSegments :: "bool \<Rightarrow> MasterPlaylist \<Rightarrow> MasterPlaylist" where
  "SetIndependentSegments b p = p\<lparr>independentSegments := b\<rparr>"

subsection \<open>Master playlist encoding\<close>

text \<open>\<open>fmt.Sprintf("%s-%s-%s-%s", alt.Type, alt.GroupId, alt.Name, alt.Language)\<close>.\<close>

definition altKey :: "Alternative \<Rightarrow> string" where
  "altKey alt = Type alt @ ''-'' @ GroupId alt @ ''-'' @ Alt_Name alt @ ''-'' @ Language alt"

definition encode_alternative :: "Alternative \<Rightarrow> line" where
  "encode_alternative alt =
     (EXT_X_MEDIA,
      ''#EXT-X-MEDIA:'' @
      (if Type alt \<noteq> [] then ''TYPE='' @ Type alt else []) @
      (if GroupId alt \<noteq> [] then '',GROUP-ID='' @ dq @ GroupId alt @ dq else []) @
      (if Alt_Name alt \<noteq> [] then '',NAME='' @ dq @ Alt_Name alt @ dq else []) @
      '',DEFAULT='' @ (if Default alt then ''YES'' else ''NO'') @
      (if Autoselect alt \<noteq> [] then '',AUTOSELECT='' @ Autoselect alt else []) @
      (if Language alt \<noteq> [] then '',LANGUAGE='' @ dq @ Language alt @ dq else []) @
      (if Forced alt \<noteq> [] then '',FORCED='' @ Forced alt else []) @
      (if Type alt = ''CLOSED-CAPTIONS'' \<and> InstreamID alt \<noteq> []
       then '',INSTREAM-ID='' @ dq @ InstreamID alt @ dq else []) @
      (if Characteristics alt \<noteq> []
       then '',CHARACTERISTICS='' @ dq @ Characteristics alt @ dq else []) @
      (if Channels alt \<noteq> [] then '',CHANNELS='' @ dq @ Channels alt @ dq else []) @
      (if Alt_Subtitles alt \<noteq> []
       then '',SUBTITLES='' @ dq @ Alt_Subtitles alt @ dq else []) @
      (if Alt_URI alt \<noteq> [] then '',URI='' @ dq @ Alt_URI alt @ dq else []) @
      nl)"

text \<open>
  The inner loop over the alternatives of one variant.  \<open>altsWritten\<close> is the
  \<open>map[string]bool\<close> of the keys written so far; a key that is absent reads as
  \<open>false\<close>.
\<close>

fun encode_alternatives ::
  "(string \<rightharpoonup> bool) \<Rightarrow> Alternative list \<Rightarrow> line list \<times> (string \<rightharpoonup> bool)" where
  "encode_alternatives altsWritten [] = ([], altsWritten)"
| "encode_alternatives altsWritten (alt # alts) =
     (if altsWritten (altKey alt) = Some True then encode_alternatives altsWritten alts
      else
        let (ls, w) = encode_alternatives (altsWritten(altKey alt \<mapsto> True)) alts
        in (encode_alternative alt # ls, w))"

definition encode_iframe_stream_inf :: "MasterPlaylist \<Rightarrow> Variant \<Rightarrow> line" where
  "encode_iframe_stream_inf p pl =
     (EXT_X_I_FRAME_STREAM_INF,
      ''#EXT-X-I-FRAME-STREAM-INF:'' @
      ''BANDWIDTH='' @ FormatUint (Bandwidth (Params pl)) @
      (if M_ver p < 6 then '',PROGRAM-ID='' @ FormatUint (ProgramId (Params pl)) else []) @
      (if AverageBandwidth (Params pl) \<noteq> 0
       then '',AVERAGE-BANDWIDTH='' @ FormatUint (AverageBandwidth (Params pl)) else []) @
      (if Codecs (Params pl) \<noteq> [] then '',CODECS='' @ dq @ Codecs (Params pl) @ dq else []) @
      (if Resolution (Params pl) \<noteq> [] then '',RESOLUTION='' @ Resolution (Params pl) else []) @
      (if Video (Params pl) \<noteq> [] then '',VIDEO='' @ dq @ Video (Params pl) @ dq else []) @
      (if VideoRange (Params pl) \<noteq> []
       then '',VIDEO-RANGE='' @ VideoRange (Params pl) else []) @
      (if HDCPLevel (Params pl) \<noteq> [] then '',HDCP-LEVEL='' @ HDCPLevel (Params pl) else []) @
      (if Var_URI pl \<noteq> [] then '',URI='' @ dq @ Var_URI pl @ dq else []) @
      nl)"

definition encode_stream_inf :: "golib \<Rightarrow> MasterPlaylist \<Rightarrow> Variant \<Rightarrow> line" where
  "encode_stream_inf lib p pl =
     (EXT_X_STREAM_INF,
      ''#EXT-X-STREAM-INF:'' @
      ''BANDWIDTH='' @ FormatUint (Bandwidth (Params pl)) @
      (if M_ver p < 6 then '',PROGRAM-ID='' @ FormatUint (ProgramId (Params pl)) else []) @
      (if AverageBandwidth (Params pl) \<noteq> 0
       then '',AVERAGE-BANDWIDTH='' @ FormatUint (AverageBandwidth (Params pl)) else []) @
      (if Codecs (Params pl) \<noteq> [] then '',CODECS='' @ dq @ Codecs (Params pl) @ dq else []) @
      (if Resolution (Params pl) \<noteq> [] then '',RESOLUTION='' @ Resolution (Params pl) else []) @
      (if Audio (Params pl) \<noteq> [] then '',AUDIO='' @ dq @ Audio (Params pl) @ dq else []) @
      (if Video (Params pl) \<noteq> [] then '',VIDEO='' @ dq @ Video (Params pl) @ dq else []) @
      (if Captions (Params pl) \<noteq> []
       then '',CLOSED-CAPTIONS='' @
            (if Captions (Params pl) = ''NONE'' then Captions (Params pl)
             else dq @ Captions (Params pl) @ dq)
       else []) @
      (if Subtitles (Params pl) \<noteq> []
       then '',SUBTITLES='' @ dq @ Subtitles (Params pl) @ dq else []) @
      (if Name (Params pl) \<noteq> [] then '',NAME='' @ dq @ Name (Params pl) @ dq else []) @
      (if FrameRate (Params pl) \<noteq> 0
       then '',FRAME-RATE='' @ FormatFloat lib (FrameRate (Params pl)) 3 64 else []) @
      (if VideoRange (Params pl) \<noteq> []
       then '',VIDEO-RANGE='' @ VideoRange (Params pl) else []) @
      (if HDCPLevel (Params pl) \<noteq> [] then '',HDCP-LEVEL='' @ HDCPLevel (Params pl) else []) @
      nl @
      Var_URI pl @
      (if M_Args p \<noteq> []
       then (if CHR ''?'' \<in> set (Var_URI pl) then ''&'' else ''?'') @ M_Args p
       else []) @
      nl)"

text \<open>The loop over the variants; \<open>altsWritten\<close> lives across the whole loop.\<close>

fun encode_variants ::
  "golib \<Rightarrow> MasterPlaylist \<Rightarrow> (string \<rightharpoonup> bool) \<Rightarrow> Variant list \<Rightarrow> line list" where
  "encode_variants lib p altsWritten [] = []"
| "encode_variants lib p altsWritten (pl # pls) =
     (let (ls, w) = encode_alternatives altsWritten (Alternatives (Params pl))
      in ls @
         [if VP_Iframe (Params pl) then encode_iframe_stream_inf p pl
          else encode_stream_inf lib p pl] @
         encode_variants lib p w pls)"

definition encode_master_header :: "MasterPlaylist \<Rightarrow> string" where
  "encode_master_header p =
     ''#EXTM3U'' @ nl @ ''#EXT-X-VERSION:'' @ strver (M_ver p) @ nl @
     (if IndependentSegments p then ''#EXT-X-INDEPENDENT-SEGMENTS'' @ nl else [])"

text \<open>
  \<open>MasterPlaylist.Encode\<close>: the lines after the header that a call can write; the
  buffer returned is the header followed by their text.
\<close>

inductive MasterPlaylist_lines :: "golib \<Rightarrow> MasterPlaylist \<Rightarrow> line list \<Rightarrow> bool"
  for lib :: golib and p :: MasterPlaylist where
  MasterPlaylist_linesI:
    "range_map (M_Custom p) cs \<Longrightarrow>
     MasterPlaylist_lines lib p (encode_custom cs @ encode_variants lib p Map.empty (Variants p))"

definition MasterPlaylist_Encode :: "golib \<Rightarrow> MasterPlaylist \<Rightarrow> string \<Rightarrow> bool" where
  "MasterPlaylist_Encode lib p buf \<longleftrightarrow>
     (\<exists>ls. MasterPlaylist_lines lib p ls \<and> buf = encode_master_header p @ text_of ls)"


subsection \<open>Encode for given visits of the maps\<close>

text \<open>
  The loop over the segments and the whole of \<open>MediaPlaylist.Encode\<close> as functions
  of the visits: \<open>visits\<close> holds for each segment the visits of the \<open>X\<close> maps of its
  date ranges and the visit of its custom tags, and \<open>cs\<close> is the visit of the custom
  tags of the playlist.
\<close>

type_synonym visit = "(string \<times> string) list list \<times> (string \<times> CustomTag) list"

fun encode_segments_with ::
  "golib \<Rightarrow> MediaPlaylist \<Rightarrow> loop_vars \<Rightarrow> MediaSegment list \<Rightarrow> visit list \<Rightarrow> line list list" where
  "encode_segments_with lib p vars (seg # segs) ((xss, cs) # visits) =
     (let (ls, vars') = encode_segment lib p vars seg xss cs
      in ls # encode_segments_with lib p vars' segs visits)"
| "encode_segments_with lib p vars segs visits = []"

definition visit_of :: "MediaSegment \<Rightarrow> visit \<Rightarrow> bool" where
  "visit_of seg v \<longleftrightarrow>
     list_all2 (\<lambda>daterange xs. range_map (X daterange) xs) (Dateranges seg) (fst v) \<and>
     range_map (Seg_Custom seg) (snd v)"

definition MediaPlaylist_Encode_with ::
  "golib \<Rightarrow> MediaPlaylist \<Rightarrow> (string \<times> CustomTag) list \<Rightarrow> visit list \<Rightarrow> string" where
  "MediaPlaylist_Encode_with lib p cs visits =
     encode_media_header p @ text_of (encode_custom cs) @ encode_media_tags lib p @
     encode_WV (WV p) @
     text_of (concat (encode_segments_with lib p loop_init (segments p) visits)) @
     (if Closed p then ''#EXT-X-ENDLIST'' @ nl else [])"

definition MasterPlaylist_Encode_with ::
  "golib \<Rightarrow> MasterPlaylist \<Rightarrow> (string \<times> CustomTag) list \<Rightarrow> string" where
  "MasterPlaylist_Encode_with lib p cs =
     encode_master_header p @
     text_of (encode_custom cs @ encode_variants lib p Map.empty (Variants p))"

subsection \<open>Notions used by the properties\<close>

text \<open>
  The id that \<open>AppendSegment\<close> assigns to a segment object that is not in the list: the
  media sequence number on a list without segments, else the id at the back plus 1.
\<close>

definition next_id :: "MediaPlaylist \<Rightarrow> uint64" where
  "next_id p = (if Segments p = [] then SeqNo p else last (seq_ids p) + 1)"

text \<open>A duration cache that holds, for each duration in it, the text \<open>Encode\<close> stores.\<close>

definition cache_ok :: "golib \<Rightarrow> MediaPlaylist \<Rightarrow> (float64 \<rightharpoonup> string) \<Rightarrow> bool" where
  "cache_ok lib p c \<longleftrightarrow> (\<forall>d str. c d = Some str \<longrightarrow> str = duration_text lib p d)"

text \<open>
  The lines of one turn of the loop when the cache is such: they depend on the loop
  variables only through the key and the map of the segment before.
\<close>

definition segment_lines ::
  "golib \<Rightarrow> MediaPlaylist \<Rightarrow> Key option \<Rightarrow> InitMap option \<Rightarrow> MediaSegment \<Rightarrow> visit \<Rightarrow> line list" where
  "segment_lines lib p prevKey prevMap seg v =
     encode_SCTE lib (SCTE seg) @
     map2 (encode_daterange lib) (Dateranges seg) (fst v) @
     encode_key prevKey seg @
     encode_discontinuity seg @
     encode_map prevMap seg @
     encode_program_date_time lib seg @
     encode_byterange seg @
     encode_custom (snd v) @
     [extinf_line p seg (duration_text lib p (Duration seg))]"

text \<open>Maps that hold at most one entry, and playlists all of whose maps are such.\<close>

definition single_entry :: "('k, 'v) fmap \<Rightarrow> bool" where
  "single_entry m \<longleftrightarrow> fcard (fmdom m) \<le> 1"

definition single_entry_segment :: "MediaSegment \<Rightarrow> bool" where
  "single_entry_segment seg \<longleftrightarrow>
     single_entry (Seg_Custom seg) \<and> list_all (\<lambda>daterange. single_entry (X daterange)) (Dateranges seg)"

definition single_entry_playlist :: "MediaPlaylist \<Rightarrow> bool" where
  "single_entry_playlist p \<longleftrightarrow>
     single_entry (Custom p) \<and> list_all single_entry_segment (segments p)"

subsection \<open>Example inputs\<close>

text \<open>
  Concrete inputs for the witnesses and counterexamples below.  \<open>example_lib\<close> stands
  in for the Go library on the few values the examples format.
\<close>

definition example_lib :: golib where
  "example_lib =
     \<lparr>FormatFloat = (\<lambda>f prec bitSize. if f = 9009 / 1000 then ''9.009'' else ''3.003''),
      Seconds = (\<lambda>d. real_of_int d / 1000000000),
      Format = (\<lambda>t layout. ''2019-01-01T00:00:00Z''),
      DATETIME = ''2006-01-02T15:04:05.999999999Z07:00'',
      int64_out_of_range = (\<lambda>f. - 9223372036854775808)\<rparr>"

definition example_key1 :: Key where
  "example_key1 =
     \<lparr>Method = ''AES-128'', Key_URI = ''k1'', IV = [], Keyformat = [], Keyformatversions = []\<rparr>"

definition example_key2 :: Key where
  "example_key2 =
     \<lparr>Method = ''AES-128'', Key_URI = ''k2'', IV = [], Keyformat = [], Keyformatversions = []\<rparr>"

definition example_map :: InitMap where
  "example_map = \<lparr>Map_URI = ''init.mp4'', Map_Limit = 0, Map_Offset = 0\<rparr>"

text \<open>
  Three segments: the first two carry the key \<open>k1\<close> (two \<open>SetKey\<close> calls with the
  same arguments, so two objects of equal value), the third the key \<open>k2\<close>; the last two
  carry the same map.
\<close>

definition example_playlist :: MediaPlaylist where
  "example_playlist =
     snd (SetMap ''init.mp4'' 0 0
     (snd (SetKey ''AES-128'' ''k2'' [] [] []
     (snd (Append ''c.ts'' (3003 / 1000) []
     (snd (SetMap ''init.mp4'' 0 0
     (snd (SetKey ''AES-128'' ''k1'' [] [] []
     (snd (Append ''b.ts'' (9009 / 1000) []
     (snd (SetKey ''AES-128'' ''k1'' [] [] []
     (snd (Append ''a.ts'' (9009 / 1000) [] (NewMediaPlaylist 3 2))))))))))))))))"

text \<open>Two segments with whole-second durations in a window of one.\<close>

definition example_window :: MediaPlaylist where
  "example_window =
     snd (Append ''b.ts'' (21 / 5) []
     (snd (Append ''a.ts'' (9009 / 1000) ''t'' (DurationAsInt True (NewMediaPlaylist 3 1)))))"

definition example_tagA :: CustomTag where
  "example_tagA = \<lparr>TagName = ''#A:'', Tag_Encode = Some ''#A:1''\<rparr>"

definition example_tagB :: CustomTag where
  "example_tagB = \<lparr>TagName = ''#B:'', Tag_Encode = Some ''#B:2''\<rparr>"

definition example_tagged :: MediaPlaylist where
  "example_tagged = SetCustomTag example_tagB (SetCustomTag example_tagA (NewMediaPlaylist 3 2))"

definition example_alt1 :: Alternative where
  "example_alt1 =
     \<lparr>GroupId = ''audio-en'', Alt_URI = ''us.m3u8'', Type = ''AUDIO'', Language = [],
      Alt_Name = ''US'', Default = True, Autoselect = [], Forced = [], Characteristics = [],
      Alt_Subtitles = [], InstreamID = [], Channels = []\<rparr>"

definition example_alt2 :: Alternative where
  "example_alt2 =
     \<lparr>GroupId = ''audio'', Alt_URI = ''en-us.m3u8'', Type = ''AUDIO'', Language = [],
      Alt_Name = ''en-US'', Default = False, Autoselect = [], Forced = [],
      Characteristics = [], Alt_Subtitles = [], InstreamID = [], Channels = []\<rparr>"

definition example_params :: VariantParams where
  "example_params =
     \<lparr>ProgramId = 0, Bandwidth = 1500000, AverageBandwidth = 0, Codecs = [], Resolution = [],
      Audio = [], Video = [], Subtitles = [], Captions = [], Name = [], VP_Iframe = False,
      VideoRange = [], HDCPLevel = [], FrameRate = 0,
      Alternatives = [example_alt1, example_alt2]\<rparr>"

definition example_master :: MasterPlaylist where
  "example_master = Master_Append ''v.m3u8'' None example_params (NewMasterPlaylist 3)"

definition example_single :: MediaPlaylist where
  "example_single = SetCustomTag example_tagA example_playlist"

definition example_single_text :: string where
  "example_single_text =
     ''#EXTM3U'' @ nl @ ''#EXT-X-VERSION:5'' @ nl @ ''#A:1'' @ nl @
     ''#EXT-X-MEDIA-SEQUENCE:0'' @ nl @ ''#EXT-X-TARGETDURATION:10'' @ nl @
     ''#EXT-X-KEY:METHOD=AES-128,URI='' @ dq @ ''k1'' @ dq @ nl @
     ''#EXTINF:9.009,'' @ nl @ ''a.ts'' @ nl @
     ''#EXT-X-MAP:URI='' @ dq @ ''init.mp4'' @ dq @ nl @
     ''#EXTINF:9.009,'' @ nl @ ''b.ts'' @ nl @
     ''#EXT-X-KEY:METHOD=AES-128,URI='' @ dq @ ''k2'' @ dq @ nl @
     ''#EXTINF:3.003,'' @ nl @ ''c.ts'' @ nl"

definition example_master_text :: string where
  "example_master_text =
     ''#EXTM3U'' @ nl @ ''#EXT-X-VERSION:4'' @ nl @
     ''#EXT-X-MEDIA:TYPE=AUDIO,GROUP-ID='' @ dq @ ''audio-en'' @ dq @ '',NAME='' @ dq @ ''US'' @ dq @
     '',DEFAULT=YES,URI='' @ dq @ ''us.m3u8'' @ dq @ nl @
     ''#EXT-X-STREAM-INF:BANDWIDTH=1500000,PROGRAM-ID=0'' @ nl @ ''v.m3u8'' @ nl"

definition example_text_AB :: string where
  "example_text_AB =
     ''#EXTM3U'' @ nl @ ''#EXT-X-VERSION:3'' @ nl @ ''#A:1'' @ nl @ ''#B:2'' @ nl @
     ''#EXT-X-MEDIA-SEQUENCE:0'' @ nl @ ''#EXT-X-TARGETDURATION:0'' @ nl"

definition example_text_BA :: string where
  "example_text_BA =
     ''#EXTM3U'' @ nl @ ''#EXT-X-VERSION:3'' @ nl @ ''#B:2'' @ nl @ ''#A:1'' @ nl @
     ''#EXT-X-MEDIA-SEQUENCE:0'' @ nl @ ''#EXT-X-TARGETDURATION:0'' @ nl"

section \<open>Properties\<close>

subsection \<open>The fields after each operation\<close>

lemma NewMediaPlaylist_fields:
  "TargetDuration (NewMediaPlaylist minver w) = 0" "SeqNo (NewMediaPlaylist minver w) = 0"
  "Segments (NewMediaPlaylist minver w) = []" "Args (NewMediaPlaylist minver w) = []"
  "Iframe (NewMediaPlaylist minver w) = False" "Closed (NewMediaPlaylist minver w) = False"
  "MediaType (NewMediaPlaylist minver w) = MediaType_None"
  "DiscontinuitySeq (NewMediaPlaylist minver w) = 0" "StartTime (NewMediaPlaylist minver w) = 0"
  "StartTimePrecise (NewMediaPlaylist minver w) = False"
  "durationAsInt (NewMediaPlaylist minver w) = False" "winsize (NewMediaPlaylist minver w) = w"
  "ver (NewMediaPlaylist minver w) = minver" "WV (NewMediaPlaylist minver w) = None"
  "Custom (NewMediaPlaylist minver w) = fmempty"
  "heap (NewMediaPlaylist minver w) = (\<lambda>a. new_MediaSegment)"
  "next_addr (NewMediaPlaylist minver w) = 0"
  by (simp_all add: NewMediaPlaylist_def)

lemma AppendSegment_fields:
  "fst (AppendSegment seg p) = None"
  "Segments (snd (AppendSegment seg p)) = Segments p @ [seg]"
  "heap (snd (AppendSegment seg p)) =
     (heap p)(seg := (heap p seg)\<lparr>SeqId :=
        (if Segments p = [] then SeqNo p
         else if last (Segments p) = seg then SeqNo p + 1
         else SeqId (heap p (last (Segments p))) + 1)\<rparr>)"
  "TargetDuration (snd (AppendSegment seg p)) =
     (if TargetDuration p < Duration (heap p seg) then of_int \<lceil>Duration (heap p seg)\<rceil>
      else TargetDuration p)"
  "SeqNo (snd (AppendSegment seg p)) = SeqNo p" "Args (snd (AppendSegment seg p)) = Args p"
  "Iframe (snd (AppendSegment seg p)) = Iframe p" "Closed (snd (AppendSegment seg p)) = Closed p"
  "MediaType (snd (AppendSegment seg p)) = MediaType p"
  "DiscontinuitySeq (snd (AppendSegment seg p)) = DiscontinuitySeq p"
  "StartTime (snd (AppendSegment seg p)) = StartTime p"
  "StartTimePrecise (snd (AppendSegment seg p)) = StartTimePrecise p"
  "durationAsInt (snd (AppendSegment seg p)) = durationAsInt p"
  "winsize (snd (AppendSegment seg p)) = winsize p" "ver (snd (AppendSegment seg p)) = ver p"
  "WV (snd (AppendSegment seg p)) = WV p" "Custom (snd (AppendSegment seg p)) = Custom p"
  "next_addr (snd (AppendSegment seg p)) = next_addr p"
  by (simp_all add: AppendSegment_def Let_def fun_eq_iff)

lemma Append_eq:
  "Append uri d title p =
     AppendSegment (next_addr p)
       (p\<lparr>next_addr := Suc (next_addr p),
          heap := (heap p)(next_addr p :=
               new_MediaSegment\<lparr>URI := uri, Duration := d, Title := title\<rparr>)\<rparr>)"
  by (simp add: Append_def alloc_def Let_def)

lemma Append_fields:
  "fst (Append uri d title p) = None"
  "Segments (snd (Append uri d title p)) = Segments p @ [next_addr p]"
  "heap (snd (Append uri d title p)) =
     (heap p)(next_addr p := new_MediaSegment\<lparr>URI := uri, Duration := d, Title := title,
        SeqId :=
          (if Segments p = [] then SeqNo p
           else if last (Segments p) = next_addr p then SeqNo p + 1
           else SeqId (heap p (last (Segments p))) + 1)\<rparr>)"
  "TargetDuration (snd (Append uri d title p)) =
     (if TargetDuration p < d then of_int \<lceil>d\<rceil> else TargetDuration p)"
  "SeqNo (snd (Append uri d title p)) = SeqNo p" "Args (snd (Append uri d title p)) = Args p"
  "Iframe (snd (Append uri d title p)) = Iframe p"
  "Closed (snd (Append uri d title p)) = Closed p"
  "MediaType (snd (Append uri d title p)) = MediaType p"
  "DiscontinuitySeq (snd (Append uri d title p)) = DiscontinuitySeq p"
  "StartTime (snd (Append uri d title p)) = StartTime p"
  "StartTimePrecise (snd (Append uri d title p)) = StartTimePrecise p"
  "durationAsInt (snd (Append uri d title p)) = durationAsInt p"
  "winsize (snd (Append uri d title p)) = winsize p" "ver (snd (Append uri d title p)) = ver p"
  "WV (snd (Append uri d title p)) = WV p" "Custom (snd (Append uri d title p)) = Custom p"
  "next_addr (snd (Append uri d title p)) = Suc (next_addr p)"
  unfolding Append_eq
  by (simp_all add: AppendSegment_fields new_MediaSegment_def fun_eq_iff)

lemma Remove_fields:
  "fst (Remove p) = (if Segments p = [] then Some ErrPlaylistEmpty else None)"
  "Segments (snd (Remove p)) = tl (Segments p)"
  "SeqNo (snd (Remove p)) = (if Segments p \<noteq> [] \<and> \<not> Closed p then SeqNo p + 1 else SeqNo p)"
  "heap (snd (Remove p)) = heap p" "TargetDuration (snd (Remove p)) = TargetDuration p"
  "Args (snd (Remove p)) = Args p" "Iframe (snd (Remove p)) = Iframe p"
  "Closed (snd (Remove p)) = Closed p" "MediaType (snd (Remove p)) = MediaType p"
  "DiscontinuitySeq (snd (Remove p)) = DiscontinuitySeq p"
  "StartTime (snd (Remove p)) = StartTime p"
  "StartTimePrecise (snd (Remove p)) = StartTimePrecise p"
  "durationAsInt (snd (Remove p)) = durationAsInt p" "winsize (snd (Remove p)) = winsize p"
  "ver (snd (Remove p)) = ver p" "WV (snd (Remove p)) = WV p" "Custom (snd (Remove p)) = Custom p"
  "next_addr (snd (Remove p)) = next_addr p"
  by (simp_all add: Remove_def Let_def)

lemma Slide_eq:
  "Slide uri d title p =
     (if \<not> Closed p \<and> winsize p \<le> length (Segments p)
      then snd (Append uri d title (snd (Remove p))) else snd (Append uri d title p))"
  by (simp add: Slide_def Slide_calls_def split: prod.splits)

lemma Close_fields:
  "Closed (Close p) = True" "Segments (Close p) = Segments p" "SeqNo (Close p) = SeqNo p"
  "winsize (Close p) = winsize p" "heap (Close p) = heap p" "next_addr (Close p) = next_addr p"
  by (simp_all add: Close_def)

lemmas fields =
  NewMediaPlaylist_fields AppendSegment_fields Append_fields Remove_fields Close_fields

subsection \<open>Remove\<close>

text \<open>
  Claim C4.  \<open>Remove\<close> on a playlist without segments returns the empty-playlist error
  and leaves the whole playlist, so also the media sequence number, as it was.  On a
  playlist with segments it returns no error, drops the head segment and keeps the rest
  in order, and the media sequence number is one more than before exactly when the
  playlist is not closed (and otherwise unchanged); no other field changes.
\<close>

theorem Remove_spec:
  "(Segments p = [] \<longrightarrow> Remove p = (Some ErrPlaylistEmpty, p)) \<and>
   (Segments p \<noteq> [] \<longrightarrow>
      fst (Remove p) = None \<and>
      Segments (snd (Remove p)) = tl (Segments p) \<and>
      Segments p = hd (Segments p) # Segments (snd (Remove p)) \<and>
      (SeqNo (snd (Remove p)) = SeqNo p + 1 \<longleftrightarrow> \<not> Closed p) \<and>
      (SeqNo (snd (Remove p)) = SeqNo p \<longleftrightarrow> Closed p) \<and>
      snd (Remove p) = p\<lparr>Segments := tl (Segments p), SeqNo := SeqNo (snd (Remove p))\<rparr>)"
  by (simp add: Remove_def Let_def)

theorem Remove_spec_witness:
  "Remove (NewMediaPlaylist 3 2) = (Some ErrPlaylistEmpty, NewMediaPlaylist 3 2) \<and>
   SeqNo (snd (Remove (NewMediaPlaylist 3 2))) = 0 \<and>
   fst (Remove (snd (Append ''a.ts'' 4 [] (NewMediaPlaylist 3 2)))) = None \<and>
   Segments (snd (Remove (snd (Append ''a.ts'' 4 [] (NewMediaPlaylist 3 2))))) = [] \<and>
   SeqNo (snd (Remove (snd (Append ''a.ts'' 4 [] (NewMediaPlaylist 3 2))))) = 1 \<and>
   SeqNo (snd (Remove (Close (snd (Append ''a.ts'' 4 [] (NewMediaPlaylist 3 2)))))) = 0"
  using Remove_spec [of "NewMediaPlaylist 3 2"]
    Remove_spec [of "snd (Append ''a.ts'' 4 [] (NewMediaPlaylist 3 2))"]
    Remove_spec [of "Close (snd (Append ''a.ts'' 4 [] (NewMediaPlaylist 3 2)))"]
  by (simp add: fields)

subsection \<open>Target duration\<close>

lemma ceil_step:
  "(if real_of_int \<lceil>M\<rceil> < d then real_of_int \<lceil>d\<rceil> else real_of_int \<lceil>M\<rceil>) = real_of_int \<lceil>max d (M::real)\<rceil>"
proof (cases "real_of_int \<lceil>M\<rceil> < d")
  case True
  have "M \<le> real_of_int \<lceil>M\<rceil>" by (rule le_of_int_ceiling)
  with True have "max d M = d" by linarith
  with True show ?thesis by simp
next
  case False
  then have "max d M \<le> real_of_int \<lceil>M\<rceil>" by simp
  then have "\<lceil>max d M\<rceil> \<le> \<lceil>M\<rceil>" by (rule ceiling_le)
  moreover have "\<lceil>M\<rceil> \<le> \<lceil>max d M\<rceil>" by (rule ceiling_mono) simp
  ultimately have "\<lceil>max d M\<rceil> = \<lceil>M\<rceil>" by simp
  with False show ?thesis by simp
qed

lemma TargetDuration_Remove: "TargetDuration (snd (Remove p)) = TargetDuration p"
  by (simp add: Remove_def Let_def)

lemma TargetDuration_Append:
  "TargetDuration (snd (Append uri d title p)) =
     (if TargetDuration p < d then real_of_int \<lceil>d\<rceil> else TargetDuration p)"
  by (simp add: fields)

lemma TargetDuration_Slide:
  "TargetDuration (Slide uri d title p) =
     (if TargetDuration p < d then real_of_int \<lceil>d\<rceil> else TargetDuration p)"
  by (simp add: Slide_eq TargetDuration_Append TargetDuration_Remove)

lemma run_snoc: "run (ops @ [x]) p = apply_op x (run ops p)"
  by (simp add: run_def)

lemma durations_snoc: "durations (ops @ [x]) = durations ops @ appended x"
  by (simp add: durations_def)

lemma TargetDuration_run:
  "TargetDuration p = 0 \<Longrightarrow>
   TargetDuration (run ops p) = real_of_int \<lceil>Max (insert 0 (set (durations ops)))\<rceil>"
proof (induction ops rule: rev_induct)
  case Nil
  then show ?case by (simp add: run_def durations_def)
next
  case (snoc x ops)
  let ?M = "Max (insert 0 (set (durations ops)))"
  have ih: "TargetDuration (run ops p) = real_of_int \<lceil>?M\<rceil>" using snoc by simp
  show ?case
  proof (cases x)
    case (OpAppend uri d title)
    have "insert 0 (set (durations (ops @ [x]))) = insert d (insert 0 (set (durations ops)))"
      using OpAppend by (auto simp: durations_snoc)
    then have "Max (insert 0 (set (durations (ops @ [x])))) = max d ?M"
      by (simp del: Max_insert add: Max.insert)
    moreover have "TargetDuration (run (ops @ [x]) p) =
        (if TargetDuration (run ops p) < d then real_of_int \<lceil>d\<rceil> else TargetDuration (run ops p))"
      using OpAppend by (simp add: run_snoc TargetDuration_Append)
    ultimately show ?thesis
      unfolding ih by (simp only: ceil_step)
  next
    case OpRemove
    then show ?thesis using ih by (simp add: run_snoc durations_snoc TargetDuration_Remove)
  next
    case (OpSlide uri d title)
    have "insert 0 (set (durations (ops @ [x]))) = insert d (insert 0 (set (durations ops)))"
      using OpSlide by (auto simp: durations_snoc)
    then have "Max (insert 0 (set (durations (ops @ [x])))) = max d ?M"
      by (simp del: Max_insert add: Max.insert)
    moreover have "TargetDuration (run (ops @ [x]) p) =
        (if TargetDuration (run ops p) < d then real_of_int \<lceil>d\<rceil> else TargetDuration (run ops p))"
      using OpSlide by (simp add: run_snoc TargetDuration_Slide)
    ultimately show ?thesis
      unfolding ih by (simp only: ceil_step)
  qed
qed

lemma TargetDuration_apply_op: "TargetDuration p \<le> TargetDuration (apply_op x p)"
proof (cases x)
  case (OpAppend uri d title)
  have "d \<le> real_of_int \<lceil>d\<rceil>" by (rule le_of_int_ceiling)
  then show ?thesis using OpAppend by (simp add: TargetDuration_Append) linarith
next
  case OpRemove
  then show ?thesis by (simp add: TargetDuration_Remove)
next
  case (OpSlide uri d title)
  have "d \<le> real_of_int \<lceil>d\<rceil>" by (rule le_of_int_ceiling)
  then show ?thesis using OpSlide by (simp add: TargetDuration_Slide) linarith
qed


text \<open>
  Claim C1, amended.  On a playlist whose target duration is 0, as it is on a new
  playlist, the target duration after any sequence of \<open>Append\<close>, \<open>Remove\<close> and
  \<open>Slide\<close> calls is the ceiling of the largest of 0 and the durations appended by
  the sequence.  So it is the ceiling of the largest appended duration as soon as one
  appended duration is above \<open>-1\<close>, and it stays 0 otherwise.  A \<open>Remove\<close> leaves the
  target duration as it is, and no operation decreases it.
\<close>

theorem TargetDuration_high_water_mark:
  "(TargetDuration p = 0 \<longrightarrow>
      TargetDuration (run ops p) = real_of_int \<lceil>Max (insert 0 (set (durations ops)))\<rceil>) \<and>
   TargetDuration (snd (Remove p)) = TargetDuration p \<and>
   TargetDuration p \<le> TargetDuration (apply_op x p)"
  by (simp add: TargetDuration_run TargetDuration_Remove TargetDuration_apply_op)

theorem TargetDuration_high_water_mark_witness:
  "TargetDuration (NewMediaPlaylist 3 3) = 0 \<and>
   TargetDuration
     (run [OpAppend ''a.ts'' (9009 / 1000) [], OpAppend ''b.ts'' (9009 / 1000) [],
           OpAppend ''c.ts'' (3003 / 1000) [], OpRemove, OpSlide ''d.ts'' 4 []]
        (NewMediaPlaylist 3 3)) = 10"
  using TargetDuration_high_water_mark [of "NewMediaPlaylist 3 3"
      "[OpAppend ''a.ts'' (9009 / 1000) [], OpAppend ''b.ts'' (9009 / 1000) [],
        OpAppend ''c.ts'' (3003 / 1000) [], OpRemove, OpSlide ''d.ts'' 4 []]"]
  by (simp add: fields durations_def)

text \<open>
  The claim as stated fails on a negative duration, which \<open>Append\<close> accepts: after the
  single append of a segment of duration \<open>-3/2\<close> to a new playlist the target duration
  is 0, and the ceiling of the largest duration appended is \<open>-1\<close>.
\<close>

theorem TargetDuration_counterexample:
  "TargetDuration (run [OpAppend ''a.ts'' (- 3 / 2) []] (NewMediaPlaylist 3 3)) = 0 \<and>
   real_of_int \<lceil>Max (set (durations [OpAppend ''a.ts'' (- 3 / 2) []]))\<rceil> = - 1 \<and>
   TargetDuration (run [OpAppend ''a.ts'' (- 3 / 2) []] (NewMediaPlaylist 3 3)) \<noteq>
   real_of_int \<lceil>Max (set (durations [OpAppend ''a.ts'' (- 3 / 2) []]))\<rceil>"
  by (simp add: run_def fields durations_def)

subsection \<open>Slide\<close>

lemma Count_Append: "Count (snd (Append uri d title p)) = Count p + 1"
  by (simp add: Count_def fields)

lemma Count_Remove: "Segments p \<noteq> [] \<Longrightarrow> Count (snd (Remove p)) = Count p - 1"
  by (simp add: Count_def Remove_def Let_def)

text \<open>
  Claim C3, amended.  On an open playlist that holds at least one segment and at least
  as many as its window size, \<open>Slide\<close> is a successful \<open>Remove\<close> followed by an
  \<open>Append\<close>, and the segment count is unchanged.  On an open playlist with fewer
  segments than its window size, \<open>Slide\<close> is the \<open>Append\<close> alone and the count grows
  by exactly 1.
\<close>

theorem Slide_count:
  "(\<not> Closed p \<and> winsize p \<le> Count p \<and> 0 < Count p \<longrightarrow>
      fst (Remove p) = None \<and>
      Slide uri d title p = snd (Append uri d title (snd (Remove p))) \<and>
      Count (Slide uri d title p) = Count p) \<and>
   (\<not> Closed p \<and> Count p < winsize p \<longrightarrow>
      Slide uri d title p = snd (Append uri d title p) \<and>
      Count (Slide uri d title p) = Count p + 1)"
proof (intro conjI impI)
  assume a: "\<not> Closed p \<and> winsize p \<le> Count p \<and> 0 < Count p"
  then have ne: "Segments p \<noteq> []" by (auto simp: Count_def)
  then show "fst (Remove p) = None" by (simp add: Remove_def Let_def)
  show s: "Slide uri d title p = snd (Append uri d title (snd (Remove p)))"
    using a by (simp add: Slide_def Slide_calls_def Count_def split: prod.splits)
  show "Count (Slide uri d title p) = Count p"
    using a ne by (simp add: s Count_Append Count_Remove)
next
  assume a: "\<not> Closed p \<and> Count p < winsize p"
  then show s: "Slide uri d title p = snd (Append uri d title p)"
    by (simp add: Slide_def Slide_calls_def Count_def split: prod.splits)
  show "Count (Slide uri d title p) = Count p + 1"
    by (simp add: s Count_Append)
qed

theorem Slide_count_witness:
  "\<not> Closed (run (appends [(''a.ts'', 4, []), (''b.ts'', 4, [])]) (NewMediaPlaylist 3 2)) \<and>
   winsize (run (appends [(''a.ts'', 4, []), (''b.ts'', 4, [])]) (NewMediaPlaylist 3 2)) \<le>
     Count (run (appends [(''a.ts'', 4, []), (''b.ts'', 4, [])]) (NewMediaPlaylist 3 2)) \<and>
   0 < Count (run (appends [(''a.ts'', 4, []), (''b.ts'', 4, [])]) (NewMediaPlaylist 3 2)) \<and>
   Count (Slide ''c.ts'' 4 []
     (run (appends [(''a.ts'', 4, []), (''b.ts'', 4, [])]) (NewMediaPlaylist 3 2))) = 2 \<and>
   \<not> Closed (NewMediaPlaylist 3 2) \<and>
   Count (NewMediaPlaylist 3 2) < winsize (NewMediaPlaylist 3 2) \<and>
   Count (Slide ''c.ts'' 4 [] (NewMediaPlaylist 3 2)) = 1"
  using Slide_count [of "run (appends [(''a.ts'', 4, []), (''b.ts'', 4, [])]) (NewMediaPlaylist 3 2)"
      "''c.ts''" 4 "[]"]
    Slide_count [of "NewMediaPlaylist 3 2" "''c.ts''" 4 "[]"]
  by (simp add: appends_def run_def Count_def fields)

text \<open>
  The claim as stated fails for window size 0: a new playlist with window size 0 is
  open and its count 0 is at the window size, yet \<open>Slide\<close> takes the count from 0 to 1.
\<close>

theorem Slide_count_counterexample:
  "\<not> Closed (NewMediaPlaylist 3 0) \<and>
   winsize (NewMediaPlaylist 3 0) \<le> Count (NewMediaPlaylist 3 0) \<and>
   Count (NewMediaPlaylist 3 0) = 0 \<and>
   Count (Slide ''a.ts'' 4 [] (NewMediaPlaylist 3 0)) = 1"
  by (simp add: Slide_eq Count_def fields)


subsection \<open>Failures of the mutation operations\<close>

lemma setters_on_empty:
  assumes "Segments p = []"
  shows "SetKey method uri iv keyformat keyformatversions p = (Some ErrPlaylistEmpty, p)"
    and "SetMap uri limit offset p = (Some ErrPlaylistEmpty, p)"
    and "SetRange limit offset p = (Some ErrPlaylistEmpty, p)"
    and "SetSCTE35 scte35 p = (Some ErrPlaylistEmpty, p)"
    and "SetSCTE cue id0 time p = (Some ErrPlaylistEmpty, p)"
    and "SetDateranges dateranges p = (Some ErrPlaylistEmpty, p)"
    and "SetDiscontinuity p = (Some ErrPlaylistEmpty, p)"
    and "SetProgramDateTime v p = (Some ErrPlaylistEmpty, p)"
    and "SetCustomSegmentTag t p = (Some ErrPlaylistEmpty, p)"
  using assms
  by (simp_all add: SetKey_def SetMap_def SetRange_def SetSCTE35_def SetSCTE_def
      SetDateranges_def SetDiscontinuity_def SetProgramDateTime_def SetCustomSegmentTag_def)

lemma setters_on_nonempty:
  assumes "Segments p \<noteq> []"
  shows "fst (SetKey method uri iv keyformat keyformatversions p) = None"
    and "fst (SetMap uri limit offset p) = None"
    and "fst (SetRange limit offset p) = None"
    and "fst (SetSCTE35 scte35 p) = None"
    and "fst (SetSCTE cue id0 time p) = None"
    and "fst (SetDateranges dateranges p) = None"
    and "fst (SetDiscontinuity p) = None"
    and "fst (SetProgramDateTime v p) = None"
    and "fst (SetCustomSegmentTag t p) = None"
  using assms
  by (simp_all add: SetKey_def SetMap_def SetRange_def SetSCTE35_def SetSCTE_def
      SetDateranges_def SetDiscontinuity_def SetProgramDateTime_def SetCustomSegmentTag_def
      Let_def)

lemma Append_succeeds: "fst (AppendSegment seg p) = None" "fst (Append uri d title p) = None"
  by (simp_all add: fields)

lemma Slide_calls_eq:
  "fst (Slide_calls uri d title p) =
     (if \<not> Closed p \<and> winsize p \<le> length (Segments p)
      then [fst (Remove p), fst (Append uri d title (snd (Remove p)))]
      else [fst (Append uri d title p)])"
  by (simp add: Slide_calls_def split: prod.splits)

text \<open>
  Claim C9, amended.  \<open>Remove\<close> and the per-segment setters return their failure, the
  empty-playlist error, to their caller and leave the playlist as it was; they fail
  exactly on a playlist without segments.  \<open>Append\<close> and \<open>AppendSegment\<close> never fail.
  \<open>Slide\<close> returns nothing: on an open playlist whose count is at or above the window
  size it is \<open>Remove\<close> followed by \<open>Append\<close>, on every other playlist, so on every
  closed one, it is \<open>Append\<close> alone, and the values these calls return are dropped.
  Among the dropped values there is a failure exactly when the playlist is open, without
  segments and of window size 0: it is the empty-playlist error of the \<open>Remove\<close>, and
  \<open>Slide\<close> then does what the \<open>Append\<close> alone does.
\<close>

theorem failures_returned_except_in_Slide:
  "(Segments p = [] \<longrightarrow>
      Remove p = (Some ErrPlaylistEmpty, p) \<and>
      SetKey method uri iv keyformat keyformatversions p = (Some ErrPlaylistEmpty, p) \<and>
      SetMap uri limit offset p = (Some ErrPlaylistEmpty, p) \<and>
      SetRange limit offset p = (Some ErrPlaylistEmpty, p) \<and>
      SetSCTE35 scte35 p = (Some ErrPlaylistEmpty, p) \<and>
      SetSCTE cue id0 time p = (Some ErrPlaylistEmpty, p) \<and>
      SetDateranges dateranges p = (Some ErrPlaylistEmpty, p) \<and>
      SetDiscontinuity p = (Some ErrPlaylistEmpty, p) \<and>
      SetProgramDateTime v p = (Some ErrPlaylistEmpty, p) \<and>
      SetCustomSegmentTag t p = (Some ErrPlaylistEmpty, p)) \<and>
   (Segments p \<noteq> [] \<longrightarrow>
      fst (Remove p) = None \<and>
      fst (SetKey method uri iv keyformat keyformatversions p) = None \<and>
      fst (SetMap uri limit offset p) = None \<and>
      fst (SetRange limit offset p) = None \<and>
      fst (SetSCTE35 scte35 p) = None \<and>
      fst (SetSCTE cue id0 time p) = None \<and>
      fst (SetDateranges dateranges p) = None \<and>
      fst (SetDiscontinuity p) = None \<and>
      fst (SetProgramDateTime v p) = None \<and>
      fst (SetCustomSegmentTag t p) = None) \<and>
   fst (AppendSegment seg p) = None \<and>
   fst (Append uri d title p) = None \<and>
   Slide uri d title p =
     (if \<not> Closed p \<and> winsize p \<le> length (Segments p)
      then snd (Append uri d title (snd (Remove p))) else snd (Append uri d title p)) \<and>
   fst (Slide_calls uri d title p) =
     (if \<not> Closed p \<and> winsize p \<le> length (Segments p)
      then [fst (Remove p), fst (Append uri d title (snd (Remove p)))]
      else [fst (Append uri d title p)]) \<and>
   snd (Slide_calls uri d title p) = Slide uri d title p \<and>
   (Some e \<in> set (fst (Slide_calls uri d title p)) \<longleftrightarrow>
      e = ErrPlaylistEmpty \<and> \<not> Closed p \<and> Segments p = [] \<and> winsize p = 0) \<and>
   ((\<not> Closed p \<and> winsize p \<le> length (Segments p)) \<and> fst (Remove p) \<noteq> None \<longleftrightarrow>
      \<not> Closed p \<and> Segments p = [] \<and> winsize p = 0) \<and>
   (\<not> Closed p \<and> Segments p = [] \<and> winsize p = 0 \<longrightarrow>
      Slide uri d title p = snd (Append uri d title p))"
proof (intro conjI impI)
  show "((\<not> Closed p \<and> winsize p \<le> length (Segments p)) \<and> fst (Remove p) \<noteq> None) =
      (\<not> Closed p \<and> Segments p = [] \<and> winsize p = 0)"
    by (auto simp: Remove_def Let_def)
  show "Slide uri d title p = snd (Append uri d title p)"
    if "\<not> Closed p \<and> Segments p = [] \<and> winsize p = 0"
    using that by (simp add: Slide_def Slide_calls_def Remove_def split: prod.splits)
  show "Slide uri d title p =
     (if \<not> Closed p \<and> winsize p \<le> length (Segments p)
      then snd (Append uri d title (snd (Remove p))) else snd (Append uri d title p))"
    by (simp add: Slide_def Slide_calls_def split: prod.splits)
  show sc: "fst (Slide_calls uri d title p) =
     (if \<not> Closed p \<and> winsize p \<le> length (Segments p)
      then [fst (Remove p), fst (Append uri d title (snd (Remove p)))]
      else [fst (Append uri d title p)])"
    by (simp add: Slide_calls_def split: prod.splits)
  show "snd (Slide_calls uri d title p) = Slide uri d title p"
    by (simp add: Slide_def)
  show "(Some e \<in> set (fst (Slide_calls uri d title p))) =
      (e = ErrPlaylistEmpty \<and> \<not> Closed p \<and> Segments p = [] \<and> winsize p = 0)"
    unfolding sc by (auto simp: Append_succeeds Remove_def Let_def)
qed (simp_all add: setters_on_empty setters_on_nonempty Append_succeeds Remove_def Let_def)

theorem failures_returned_except_in_Slide_witness:
  "Segments (NewMediaPlaylist 3 0) = [] \<and>
   Remove (NewMediaPlaylist 3 0) = (Some ErrPlaylistEmpty, NewMediaPlaylist 3 0) \<and>
   SetDiscontinuity (NewMediaPlaylist 3 0) = (Some ErrPlaylistEmpty, NewMediaPlaylist 3 0) \<and>
   \<not> Closed (NewMediaPlaylist 3 0) \<and> winsize (NewMediaPlaylist 3 0) = 0 \<and>
   fst (Slide_calls ''a.ts'' 4 [] (NewMediaPlaylist 3 0)) = [Some ErrPlaylistEmpty, None] \<and>
   Slide ''a.ts'' 4 [] (NewMediaPlaylist 3 0) = snd (Append ''a.ts'' 4 [] (NewMediaPlaylist 3 0)) \<and>
   Segments (snd (Append ''a.ts'' 4 [] (NewMediaPlaylist 3 0))) \<noteq> [] \<and>
   fst (Remove (snd (Append ''a.ts'' 4 [] (NewMediaPlaylist 3 0)))) = None \<and>
   fst (SetDiscontinuity (snd (Append ''a.ts'' 4 [] (NewMediaPlaylist 3 0)))) = None \<and>
   fst (Slide_calls ''b.ts'' 4 [] (snd (Append ''a.ts'' 4 [] (NewMediaPlaylist 3 0)))) =
     [None, None] \<and>
   fst (Slide_calls ''b.ts'' 4 [] (Close (snd (Append ''a.ts'' 4 [] (NewMediaPlaylist 3 0))))) =
     [None] \<and>
   Count (Slide ''b.ts'' 4 [] (Close (snd (Append ''a.ts'' 4 [] (NewMediaPlaylist 3 0))))) = 2"
  using failures_returned_except_in_Slide [where p = "NewMediaPlaylist 3 0" and uri = "''a.ts''"
      and d = 4 and title = "[]"]
    failures_returned_except_in_Slide [where p = "snd (Append ''a.ts'' 4 [] (NewMediaPlaylist 3 0))"
      and uri = "''b.ts''" and d = 4 and title = "[]"]
    failures_returned_except_in_Slide [where
      p = "Close (snd (Append ''a.ts'' 4 [] (NewMediaPlaylist 3 0)))"
      and uri = "''b.ts''" and d = 4 and title = "[]"]
  by (simp add: Count_def fields)

text \<open>
  The claim as stated fails on a new playlist with window size 0: it is open and its
  count is at the window size, so \<open>Slide\<close> performs the \<open>Remove\<close>; that \<open>Remove\<close>
  returns the empty-playlist error, the first of the two values that \<open>Slide\<close> drops;
  and \<open>Slide\<close>, which has no result, ends in the state of the \<open>Append\<close> alone.
\<close>

theorem Slide_discards_failure_counterexample:
  "\<not> Closed (NewMediaPlaylist 3 0) \<and>
   winsize (NewMediaPlaylist 3 0) \<le> length (Segments (NewMediaPlaylist 3 0)) \<and>
   fst (Remove (NewMediaPlaylist 3 0)) = Some ErrPlaylistEmpty \<and>
   fst (Slide_calls ''a.ts'' 4 [] (NewMediaPlaylist 3 0)) = [Some ErrPlaylistEmpty, None] \<and>
   Slide ''a.ts'' 4 [] (NewMediaPlaylist 3 0) = snd (Append ''a.ts'' 4 [] (NewMediaPlaylist 3 0))"
  by (simp add: Slide_eq Slide_calls_eq fields)

subsection \<open>Version negotiation\<close>

lemma version_max: "version v r = max v r"
  by (auto simp: version_def max_def)

lemma Segments_upd_last: "Segments (upd_last f p) = Segments p"
  by (simp add: upd_last_def)

lemma ver_upd_last: "ver (upd_last f p) = ver p"
  by (simp add: upd_last_def)

lemma ver_apply_setter:
  "Segments p \<noteq> [] \<Longrightarrow> ver (apply_setter s p) = max (ver p) (required s)"
  by (cases s)
     (simp_all add: DurationAsInt_def SetIframeOnly_def SetRange_def SetKey_def SetMap_def
        Let_def ver_upd_last version_max max_def)

lemma ver_apply_setter_mono: "ver p \<le> ver (apply_setter s p)"
  by (cases s)
     (simp_all add: DurationAsInt_def SetIframeOnly_def SetRange_def SetKey_def SetMap_def
        Let_def ver_upd_last version_max)

lemma Segments_apply_setter_nonempty:
  "Segments p \<noteq> [] \<Longrightarrow> Segments (apply_setter s p) \<noteq> []"
  by (cases s)
     (simp_all add: DurationAsInt_def SetIframeOnly_def SetRange_def SetKey_def SetMap_def
        Let_def Segments_upd_last)

lemma ver_apply_setter_twice: "ver (apply_setter s (apply_setter s p)) = ver (apply_setter s p)"
proof (cases "Segments p = []")
  case True
  then show ?thesis
    by (cases s)
       (simp_all add: DurationAsInt_def SetIframeOnly_def SetRange_def SetKey_def SetMap_def
          Let_def version_max)
next
  case False
  then show ?thesis
    by (simp add: ver_apply_setter Segments_apply_setter_nonempty)
qed

lemma ver_run_setters:
  "Segments p \<noteq> [] \<Longrightarrow>
   ver (run_setters ss p) = Max (insert (ver p) (required ` set ss)) \<and>
   Segments (run_setters ss p) \<noteq> []"
proof (induction ss rule: rev_induct)
  case Nil
  then show ?case by (simp add: run_setters_def)
next
  case (snoc s ss)
  then have ih: "ver (run_setters ss p) = Max (insert (ver p) (required ` set ss))"
    "Segments (run_setters ss p) \<noteq> []" by simp_all
  have run: "run_setters (ss @ [s]) p = apply_setter s (run_setters ss p)"
    by (simp add: run_setters_def)
  have "insert (ver p) (required ` set (ss @ [s])) =
      insert (required s) (insert (ver p) (required ` set ss))" by auto
  then have "Max (insert (ver p) (required ` set (ss @ [s]))) =
      max (required s) (Max (insert (ver p) (required ` set ss)))"
    by (simp del: Max_insert add: Max.insert)
  then show ?case
    using ih by (simp add: run ver_apply_setter Segments_apply_setter_nonempty max.commute)
qed

text \<open>
  Claim C5, amended.  \<open>version\<close> computes the maximum of the current and the required
  version and so never lowers it, and no setter lowers the version.  Calling the same
  setter a second time leaves the version where the first call has put it.  On a
  playlist with at least one segment (the per-segment setters \<open>SetRange\<close>, \<open>SetKey\<close>
  and \<open>SetMap\<close> fail without one), any sequence of setter calls whose required
  versions are exactly 3, 4 and 5, in any order and with any repetition, ends at the
  maximum of 5 and the version before the calls: at 5 exactly when the playlist was at
  version 5 or less.
\<close>

theorem version_negotiation:
  "version v r = max v r \<and>
   v \<le> version v r \<and>
   ver p \<le> ver (apply_setter s p) \<and>
   ver (apply_setter s (apply_setter s p)) = ver (apply_setter s p) \<and>
   (Segments p \<noteq> [] \<and> required ` set ss = {3, 4, 5} \<longrightarrow>
      ver (run_setters ss p) = max (ver p) 5 \<and>
      (ver (run_setters ss p) = 5 \<longleftrightarrow> ver p \<le> 5))"
proof (intro conjI impI)
  assume a: "Segments p \<noteq> [] \<and> required ` set ss = {3, 4, 5}"
  then have "ver (run_setters ss p) = Max (insert (ver p) {3, 4, 5})"
    by (simp add: ver_run_setters)
  also have "\<dots> = max (ver p) 5" by (simp add: max_def)
  finally show m: "ver (run_setters ss p) = max (ver p) 5" .
  show "(ver (run_setters ss p) = 5) = (ver p \<le> 5)"
    unfolding m by (auto simp: max_def)
qed (simp_all add: version_max ver_apply_setter_mono ver_apply_setter_twice)

theorem version_negotiation_witness:
  "Segments (snd (Append ''a.ts'' 4 [] (NewMediaPlaylist 1 3))) \<noteq> [] \<and>
   required ` set [CallSetKey ''AES-128'' ''k'' [] ''identity'' [], CallDurationAsInt True,
                 CallSetIframeOnly] = {3, 4, 5} \<and>
   ver (snd (Append ''a.ts'' 4 [] (NewMediaPlaylist 1 3))) = 1 \<and>
   ver (run_setters [CallSetKey ''AES-128'' ''k'' [] ''identity'' [], CallDurationAsInt True,
                     CallSetIframeOnly] (snd (Append ''a.ts'' 4 [] (NewMediaPlaylist 1 3)))) = 5"
  using version_negotiation [of _ _ "snd (Append ''a.ts'' 4 [] (NewMediaPlaylist 1 3))" _
      "[CallSetKey ''AES-128'' ''k'' [] ''identity'' [], CallDurationAsInt True,
        CallSetIframeOnly]"]
  by (auto simp: fields)

text \<open>
  The claim as stated fails in two ways.  On a playlist that \<open>SetVersion\<close> has put at
  version 7, the three setters leave the version at 7.  On a new playlist, which has no
  segment, \<open>SetKey\<close> returns the empty-playlist error before it reaches \<open>version\<close>,
  and the three setters end at version 4.
\<close>

theorem version_negotiation_counterexample:
  "ver (run_setters [CallDurationAsInt True, CallSetIframeOnly,
                     CallSetKey ''AES-128'' ''k'' [] ''identity'' []]
          (SetVersion 7 (snd (Append ''a.ts'' 4 [] (NewMediaPlaylist 3 3))))) = 7 \<and>
   ver (run_setters [CallDurationAsInt True, CallSetIframeOnly,
                     CallSetKey ''AES-128'' ''k'' [] ''identity'' []]
          (NewMediaPlaylist 3 3)) = 4"
  by (simp add: run_setters_def DurationAsInt_def SetIframeOnly_def SetKey_def SetVersion_def
      fields upd_last_def version_def Let_def)


subsection \<open>Sequence ids\<close>

lemma contiguous_iff:
  "contiguous ids \<longleftrightarrow> (\<forall>i. Suc i < length ids \<longrightarrow> ids ! Suc i = ids ! i + 1)"
proof
  assume c: "contiguous ids"
  show "\<forall>i. Suc i < length ids \<longrightarrow> ids ! Suc i = ids ! i + 1"
  proof (intro allI impI)
    fix i assume i: "Suc i < length ids"
    have nth: "\<And>j. j < length ids \<Longrightarrow> ids ! j = hd ids + of_nat j"
    proof -
      fix j assume j: "j < length ids"
      have "ids ! j = map (\<lambda>i. hd ids + of_nat i) [0..<length ids] ! j"
        using c by (simp add: contiguous_def)
      then show "ids ! j = hd ids + of_nat j" using j by simp
    qed
    show "ids ! Suc i = ids ! i + 1" using i by (simp add: nth)
  qed
next
  assume s: "\<forall>i. Suc i < length ids \<longrightarrow> ids ! Suc i = ids ! i + 1"
  have nth: "i < length ids \<Longrightarrow> ids ! i = hd ids + of_nat i" for i
  proof (induction i)
    case 0
    then show ?case by (simp add: hd_conv_nth)
  next
    case (Suc i)
    then show ?case using s by simp
  qed
  show "contiguous ids"
    unfolding contiguous_def by (rule nth_equalityI) (simp_all add: nth)
qed

lemma contiguous_tl: "contiguous ids \<Longrightarrow> contiguous (tl ids)"
  by (simp add: contiguous_iff nth_tl)

lemma contiguous_snoc:
  assumes "contiguous ids" and "ids \<noteq> []"
  shows "contiguous (ids @ [last ids + 1])"
  unfolding contiguous_iff
proof (intro allI impI)
  fix i assume "Suc i < length (ids @ [last ids + 1])"
  then consider "Suc i < length ids" | "Suc i = length ids" by fastforce
  then show "(ids @ [last ids + 1]) ! Suc i = (ids @ [last ids + 1]) ! i + 1"
  proof cases
    case 1
    then show ?thesis using assms(1) by (simp add: contiguous_iff nth_append)
  next
    case 2
    then have "last ids = ids ! i" using assms(2) by (simp add: last_conv_nth flip: 2)
    then show ?thesis using 2 by (simp add: nth_append flip: 2)
  qed
qed

lemma contiguous_single: "contiguous [x]"
  by (simp add: contiguous_def)

lemma alloc_fields:
  "fst (alloc seg p) = next_addr p"
  "Segments (snd (alloc seg p)) = Segments p" "SeqNo (snd (alloc seg p)) = SeqNo p"
  "heap (snd (alloc seg p)) = (heap p)(next_addr p := seg)"
  "next_addr (snd (alloc seg p)) = Suc (next_addr p)"
  "Closed (snd (alloc seg p)) = Closed p" "winsize (snd (alloc seg p)) = winsize p"
  "TargetDuration (snd (alloc seg p)) = TargetDuration p"
  by (simp_all add: alloc_def)

lemma allocated_not_next: "allocated p \<Longrightarrow> next_addr p \<notin> set (Segments p)"
  by (auto simp: allocated_def list_all_iff)

lemma seq_ids_Remove: "seq_ids (snd (Remove p)) = tl (seq_ids p)"
  by (simp add: seq_ids_def segments_def fields map_tl)

lemma seq_ids_new_object:
  assumes "seg \<notin> set (Segments p)"
  shows "map SeqId (map ((heap p)(seg := s)) (Segments p @ [seg])) = seq_ids p @ [SeqId s]"
proof -
  have "map ((heap p)(seg := s)) (Segments p) = map (heap p) (Segments p)"
    using assms by (intro map_cong) auto
  then show ?thesis by (simp add: seq_ids_def segments_def)
qed

lemma last_seq_ids:
  "Segments p \<noteq> [] \<Longrightarrow> last (seq_ids p) = SeqId (heap p (last (Segments p)))"
  by (simp add: seq_ids_def segments_def last_map)

lemma seq_ids_AppendSegment:
  assumes "seg \<notin> set (Segments p)"
  shows "seq_ids (snd (AppendSegment seg p)) = seq_ids p @ [next_id p]"
proof -
  have "last (Segments p) \<noteq> seg" if "Segments p \<noteq> []"
    using that assms last_in_set by metis
  then have "SeqId ((heap p seg)\<lparr>SeqId :=
        (if Segments p = [] then SeqNo p
         else if last (Segments p) = seg then SeqNo p + 1
         else SeqId (heap p (last (Segments p))) + 1)\<rparr>) = next_id p"
    by (simp add: next_id_def last_seq_ids)
  moreover have "seq_ids (snd (AppendSegment seg p)) =
      map SeqId (map (heap (snd (AppendSegment seg p))) (Segments p @ [seg]))"
    by (simp only: seq_ids_def segments_def AppendSegment_fields)
  ultimately show ?thesis
    by (simp only: AppendSegment_fields(3) seq_ids_new_object [OF assms])
qed

lemma seq_ids_Append:
  assumes "allocated p"
  shows "seq_ids (snd (Append uri d title p)) = seq_ids p @ [next_id p]"
proof -
  have n: "next_addr p \<notin> set (Segments p)" using assms by (rule allocated_not_next)
  then have "last (Segments p) \<noteq> next_addr p" if "Segments p \<noteq> []"
    using that last_in_set by metis
  then have "SeqId (new_MediaSegment\<lparr>URI := uri, Duration := d, Title := title,
        SeqId :=
          (if Segments p = [] then SeqNo p
           else if last (Segments p) = next_addr p then SeqNo p + 1
           else SeqId (heap p (last (Segments p))) + 1)\<rparr>) = next_id p"
    by (simp add: next_id_def last_seq_ids)
  moreover have "seq_ids (snd (Append uri d title p)) =
      map SeqId (map (heap (snd (Append uri d title p))) (Segments p @ [next_addr p]))"
    by (simp only: seq_ids_def segments_def Append_fields)
  ultimately show ?thesis
    by (simp only: Append_fields(3) seq_ids_new_object [OF n])
qed

lemma next_id_after:
  assumes "seq_ids q = seq_ids p @ [next_id p]" and "SeqNo q = SeqNo p"
  shows "next_id q = next_id p + 1"
proof -
  have "Segments q \<noteq> []" using assms(1) by (auto simp: seq_ids_def segments_def)
  then show ?thesis by (simp add: next_id_def assms(1))
qed

lemma allocated_Append: "allocated p \<Longrightarrow> allocated (snd (Append uri d title p))"
  by (auto simp: allocated_def list_all_iff fields)

lemma allocated_AppendSegment:
  "allocated p \<Longrightarrow> seg < next_addr p \<Longrightarrow> allocated (snd (AppendSegment seg p))"
  by (auto simp: allocated_def list_all_iff fields)

lemma allocated_Remove: "allocated p \<Longrightarrow> allocated (snd (Remove p))"
  by (cases "Segments p") (auto simp: allocated_def list_all_iff fields)

lemma allocated_Slide: "allocated p \<Longrightarrow> allocated (Slide uri d title p)"
  by (simp add: Slide_eq allocated_Append allocated_Remove)

lemma allocated_apply_call:
  "allocated p \<Longrightarrow> new_to_list c p \<Longrightarrow> allocated (apply_call c p)"
  by (cases c)
     (simp_all add: allocated_Append allocated_AppendSegment allocated_Remove allocated_Slide)

lemma contiguous_extend:
  assumes "contiguous (seq_ids p)" and "seq_ids q = seq_ids p @ [next_id p]"
  shows "contiguous (seq_ids q)"
proof (cases "Segments p = []")
  case True
  then have "seq_ids p = []" by (simp add: seq_ids_def segments_def)
  then show ?thesis using assms(2) by (simp add: contiguous_single)
next
  case False
  then have "seq_ids p \<noteq> []" by (simp add: seq_ids_def segments_def)
  then show ?thesis
    using assms False by (simp add: next_id_def contiguous_snoc)
qed

lemma contiguous_Remove: "contiguous (seq_ids p) \<Longrightarrow> contiguous (seq_ids (snd (Remove p)))"
  by (simp add: seq_ids_Remove contiguous_tl)

lemma contiguous_Append:
  "allocated p \<Longrightarrow> contiguous (seq_ids p) \<Longrightarrow> contiguous (seq_ids (snd (Append uri d title p)))"
  by (erule contiguous_extend [rotated -1, OF seq_ids_Append])

lemma contiguous_Slide:
  "allocated p \<Longrightarrow> contiguous (seq_ids p) \<Longrightarrow> contiguous (seq_ids (Slide uri d title p))"
  by (simp add: Slide_eq contiguous_Append contiguous_Remove allocated_Remove)

lemma contiguous_apply_call:
  assumes "allocated p" and "new_to_list c p" and "contiguous (seq_ids p)"
  shows "contiguous (seq_ids (apply_call c p))"
proof (cases c)
  case (DoAppendSegment seg)
  then have "seg \<notin> set (Segments p)" using assms(2) by simp
  then have "seq_ids (snd (AppendSegment seg p)) = seq_ids p @ [next_id p]"
    by (rule seq_ids_AppendSegment)
  with assms(3) have "contiguous (seq_ids (snd (AppendSegment seg p)))"
    by (rule contiguous_extend)
  then show ?thesis using DoAppendSegment by simp
qed (simp_all add: assms contiguous_Append contiguous_Remove contiguous_Slide)

lemma contiguous_run_calls:
  "allocated p \<Longrightarrow> fresh_calls cs p \<Longrightarrow> contiguous (seq_ids p) \<Longrightarrow>
   contiguous (seq_ids (run_calls cs p))"
proof (induction cs arbitrary: p)
  case Nil
  then show ?case by simp
next
  case (Cons c cs)
  then show ?case
    by (simp add: allocated_apply_call contiguous_apply_call)
qed

lemma append_call:
  assumes "allocated p" and "new_to_list c p" and "is_append c"
  shows "seq_ids (apply_call c p) = seq_ids p @ [next_id p]"
    and "SeqNo (apply_call c p) = SeqNo p"
  using assms by (cases c; simp add: seq_ids_Append seq_ids_AppendSegment fields)+

lemma seq_ids_append_calls:
  "allocated p \<Longrightarrow> list_all is_append cs \<Longrightarrow> fresh_calls cs p \<Longrightarrow>
   seq_ids (run_calls cs p) = seq_ids p @ map (\<lambda>i. next_id p + of_nat i) [0..<length cs]"
proof (induction cs arbitrary: p)
  case Nil
  then show ?case by simp
next
  case (Cons c cs)
  let ?q = "apply_call c p"
  have c: "new_to_list c p" "is_append c" "fresh_calls cs ?q" "list_all is_append cs"
    using Cons.prems by simp_all
  note a = append_call [OF Cons.prems(1) c(1) c(2)]
  have q: "allocated ?q" using Cons.prems(1) c(1) by (rule allocated_apply_call)
  have n: "next_id ?q = next_id p + 1" using a by (rule next_id_after)
  have "seq_ids (run_calls (c # cs) p) =
      seq_ids ?q @ map (\<lambda>i. next_id ?q + of_nat i) [0..<length cs]"
    using Cons.IH [OF q c(4) c(3)] by simp
  also have "\<dots> = seq_ids p @ next_id p # map (\<lambda>i. next_id p + of_nat (Suc i)) [0..<length cs]"
    by (simp add: a n add.assoc add.commute)
  also have "\<dots> = seq_ids p @ map (\<lambda>i. next_id p + of_nat i) [0..<length (c # cs)]"
    by (simp add: upt_conv_Cons map_Suc_upt [symmetric] del: upt_Suc)
  finally show ?case .
qed

lemma unat_plus_of_nat:
  "unat (a::uint64) + i < 2 ^ 64 \<Longrightarrow> unat (a + of_nat i) = unat a + i"
  by (simp add: unat_word_ariths unat_of_nat)

text \<open>
  Claim C2, amended.  The arithmetic is that of \<open>uint64\<close>.  Take any sequence of calls
  in which no \<open>AppendSegment\<close> is handed a segment object that the playlist retains at
  that moment; \<open>Append\<close> never does so, since it allocates the object it appends.  If
  the calls are all appends and start on a playlist without segments, the retained ids
  are \<open>SeqNo\<close>, \<open>SeqNo + 1\<close>, \<open>SeqNo + 2\<close>, ... in append order, where \<open>SeqNo\<close> is
  the media sequence number at the first append; as long as \<open>SeqNo\<close> plus the number
  of appends does not pass \<open>2 ^ 64\<close> the same holds for the ids read as numbers.  If
  the ids of the retained segments are contiguous, they are contiguous after any such
  sequence of \<open>Append\<close>, \<open>AppendSegment\<close>, \<open>Remove\<close> and \<open>Slide\<close> calls: each
  retained id is the id before it plus 1.
\<close>

theorem seq_ids_contiguous:
  "(allocated p \<and> Segments p = [] \<and> list_all is_append cs \<and> fresh_calls cs p \<longrightarrow>
      map (\<lambda>a. SeqId (heap (run_calls cs p) a)) (Segments (run_calls cs p)) =
        map (\<lambda>i. SeqNo p + of_nat i) [0..<length cs]) \<and>
   (allocated p \<and> Segments p = [] \<and> list_all is_append cs \<and> fresh_calls cs p \<and>
    unat (SeqNo p) + length cs \<le> 2 ^ 64 \<longrightarrow>
      map (\<lambda>a. unat (SeqId (heap (run_calls cs p) a))) (Segments (run_calls cs p)) =
        map (\<lambda>i. unat (SeqNo p) + i) [0..<length cs]) \<and>
   (allocated p \<and> fresh_calls cs p \<and>
    (\<forall>i. Suc i < length (Segments p) \<longrightarrow>
       SeqId (heap p (Segments p ! Suc i)) = SeqId (heap p (Segments p ! i)) + 1) \<longrightarrow>
      (\<forall>i. Suc i < length (Segments (run_calls cs p)) \<longrightarrow>
         SeqId (heap (run_calls cs p) (Segments (run_calls cs p) ! Suc i)) =
         SeqId (heap (run_calls cs p) (Segments (run_calls cs p) ! i)) + 1))"
proof (intro conjI impI)
  assume a: "allocated p \<and> Segments p = [] \<and> list_all is_append cs \<and> fresh_calls cs p"
  then have "seq_ids (run_calls cs p) = seq_ids p @ map (\<lambda>i. next_id p + of_nat i) [0..<length cs]"
    by (simp add: seq_ids_append_calls)
  then show "map (\<lambda>a. SeqId (heap (run_calls cs p) a)) (Segments (run_calls cs p)) =
      map (\<lambda>i. SeqNo p + of_nat i) [0..<length cs]"
    using a by (simp add: seq_ids_def segments_def next_id_def comp_def)
next
  assume a: "allocated p \<and> Segments p = [] \<and> list_all is_append cs \<and> fresh_calls cs p \<and>
    unat (SeqNo p) + length cs \<le> 2 ^ 64"
  then have "seq_ids (run_calls cs p) = seq_ids p @ map (\<lambda>i. next_id p + of_nat i) [0..<length cs]"
    by (simp add: seq_ids_append_calls)
  then have "map (\<lambda>a. SeqId (heap (run_calls cs p) a)) (Segments (run_calls cs p)) =
      map (\<lambda>i. SeqNo p + of_nat i) [0..<length cs]"
    using a by (simp add: seq_ids_def segments_def next_id_def comp_def)
  then have "map unat (map (\<lambda>a. SeqId (heap (run_calls cs p) a)) (Segments (run_calls cs p))) =
      map unat (map (\<lambda>i. SeqNo p + of_nat i) [0..<length cs])"
    by (rule arg_cong)
  then have "map (\<lambda>a. unat (SeqId (heap (run_calls cs p) a))) (Segments (run_calls cs p)) =
      map (\<lambda>i. unat (SeqNo p + of_nat i)) [0..<length cs]"
    by (simp add: comp_def)
  moreover have "unat (SeqNo p + of_nat i) = unat (SeqNo p) + i" if "i < length cs" for i
    using a that by (intro unat_plus_of_nat) simp
  ultimately show "map (\<lambda>a. unat (SeqId (heap (run_calls cs p) a))) (Segments (run_calls cs p)) =
      map (\<lambda>i. unat (SeqNo p) + i) [0..<length cs]"
    by simp
next
  assume a: "allocated p \<and> fresh_calls cs p \<and>
    (\<forall>i. Suc i < length (Segments p) \<longrightarrow>
       SeqId (heap p (Segments p ! Suc i)) = SeqId (heap p (Segments p ! i)) + 1)"
  then have "contiguous (seq_ids p)"
    by (simp add: contiguous_iff seq_ids_def segments_def)
  then have "contiguous (seq_ids (run_calls cs p))"
    using a by (simp add: contiguous_run_calls)
  then show "\<forall>i. Suc i < length (Segments (run_calls cs p)) \<longrightarrow>
         SeqId (heap (run_calls cs p) (Segments (run_calls cs p) ! Suc i)) =
         SeqId (heap (run_calls cs p) (Segments (run_calls cs p) ! i)) + 1"
    by (simp add: contiguous_iff seq_ids_def segments_def)
qed

theorem seq_ids_contiguous_witness:
  "seq_ids (run_calls [DoAppendSegment 0, DoAppend ''b.ts'' 4 [], DoAppend ''c.ts'' 4 []]
      (snd (alloc new_MediaSegment ((NewMediaPlaylist 3 2)\<lparr>SeqNo := 7\<rparr>)))) = [7, 8, 9] \<and>
   map unat (seq_ids (run_calls [DoAppendSegment 0, DoAppend ''b.ts'' 4 [], DoAppend ''c.ts'' 4 []]
      (snd (alloc new_MediaSegment ((NewMediaPlaylist 3 2)\<lparr>SeqNo := 7\<rparr>))))) = [7, 8, 9] \<and>
   seq_ids (run_calls [DoAppendSegment 0, DoSlide ''b.ts'' 4 [], DoSlide ''c.ts'' 4 [], DoRemove,
        DoAppend ''d.ts'' 4 []]
      (snd (alloc new_MediaSegment ((NewMediaPlaylist 3 2)\<lparr>SeqNo := 7\<rparr>)))) = [9, 10]"
proof -
  let ?p = "snd (alloc new_MediaSegment ((NewMediaPlaylist 3 2)\<lparr>SeqNo := 7\<rparr>))"
  let ?cs = "[DoAppendSegment 0, DoAppend ''b.ts'' 4 [], DoAppend ''c.ts'' 4 []]"
  let ?ds = "[DoAppendSegment 0, DoSlide ''b.ts'' 4 [], DoSlide ''c.ts'' 4 [], DoRemove,
        DoAppend ''d.ts'' 4 []]"
  have p: "allocated ?p" "Segments ?p = []" "SeqNo ?p = 7"
    by (simp_all add: allocated_def alloc_fields fields)
  have cs: "list_all is_append ?cs" "fresh_calls ?cs ?p"
    by (simp_all add: alloc_fields fields)
  have ds: "fresh_calls ?ds ?p"
    by (simp add: alloc_fields fields)
  have c: "\<forall>i. Suc i < length (Segments ?p) \<longrightarrow>
       SeqId (heap ?p (Segments ?p ! Suc i)) = SeqId (heap ?p (Segments ?p ! i)) + 1"
    by (simp add: p)
  have s: "Segments (run_calls ?ds ?p) = [2, 3]"
    by (simp add: Slide_eq alloc_fields fields)
  have l: "SeqId (heap (run_calls ?ds ?p) 2) = 9"
    by (simp add: Slide_eq alloc_fields fields)
  note t = seq_ids_contiguous [of ?p ?cs]
  have 1: "seq_ids (run_calls ?cs ?p) = [7, 8, 9]"
    using t p cs by (simp add: seq_ids_def segments_def comp_def upt_rec)
  have "map (\<lambda>a. unat (SeqId (heap (run_calls ?cs ?p) a))) (Segments (run_calls ?cs ?p)) =
      map (\<lambda>i. unat (SeqNo ?p) + i) [0..<length ?cs]"
    using t p cs by simp
  then have 2: "map unat (seq_ids (run_calls ?cs ?p)) = [7, 8, 9]"
    by (simp add: seq_ids_def segments_def comp_def upt_rec p)
  have "\<forall>i. Suc i < length (Segments (run_calls ?ds ?p)) \<longrightarrow>
         SeqId (heap (run_calls ?ds ?p) (Segments (run_calls ?ds ?p) ! Suc i)) =
         SeqId (heap (run_calls ?ds ?p) (Segments (run_calls ?ds ?p) ! i)) + 1"
    using seq_ids_contiguous [of ?p ?ds] p ds c by blast
  from this [rule_format, of 0]
  have "SeqId (heap (run_calls ?ds ?p) 3) = SeqId (heap (run_calls ?ds ?p) 2) + 1"
    unfolding s by simp
  then have 3: "seq_ids (run_calls ?ds ?p) = [9, 10]"
    using s l by (simp add: seq_ids_def segments_def)
  from 1 2 3 show ?thesis by blast
qed

text \<open>
  Claim C2 as the specification states it is refuted: \<open>AppendSegment\<close> keeps the segment
  object it is handed and writes the id into that object, so a segment object that is
  appended twice is retained twice with one id.  On a fresh playlist the two ids are
  \<open>1\<close> and \<open>1\<close>, not \<open>0\<close> and \<open>1\<close>.
\<close>

theorem AppendSegment_twice_counterexample:
  "Segments (snd (alloc new_MediaSegment (NewMediaPlaylist 3 2))) = [] \<and>
   SeqNo (snd (alloc new_MediaSegment (NewMediaPlaylist 3 2))) = 0 \<and>
   list_all is_append [DoAppendSegment 0, DoAppendSegment 0] \<and>
   fst (AppendSegment 0 (snd (alloc new_MediaSegment (NewMediaPlaylist 3 2)))) = None \<and>
   fst (AppendSegment 0 (snd (AppendSegment 0
      (snd (alloc new_MediaSegment (NewMediaPlaylist 3 2)))))) = None \<and>
   Segments (run_calls [DoAppendSegment 0, DoAppendSegment 0]
      (snd (alloc new_MediaSegment (NewMediaPlaylist 3 2)))) = [0, 0] \<and>
   seq_ids (run_calls [DoAppendSegment 0, DoAppendSegment 0]
      (snd (alloc new_MediaSegment (NewMediaPlaylist 3 2)))) = [1, 1] \<and>
   seq_ids (run_calls [DoAppendSegment 0, DoAppendSegment 0]
      (snd (alloc new_MediaSegment (NewMediaPlaylist 3 2)))) \<noteq>
     map (\<lambda>i. SeqNo (snd (alloc new_MediaSegment (NewMediaPlaylist 3 2))) + of_nat i) [0..<2] \<and>
   \<not> contiguous (seq_ids (run_calls [DoAppendSegment 0, DoAppendSegment 0]
      (snd (alloc new_MediaSegment (NewMediaPlaylist 3 2)))))"
proof -
  let ?p = "snd (alloc new_MediaSegment (NewMediaPlaylist 3 2))"
  let ?q = "run_calls [DoAppendSegment 0, DoAppendSegment 0] ?p"
  have s: "Segments ?q = [0, 0]"
    by (simp add: alloc_fields fields)
  have i: "seq_ids ?q = [1, 1]"
    by (simp add: seq_ids_def segments_def alloc_fields fields)
  show ?thesis
    unfolding i by (simp add: alloc_fields fields contiguous_def upt_rec)
qed

subsection \<open>The loop over the segments\<close>

lemma Key_Equal_iff: "Key_Equal k l \<longleftrightarrow> k = l"
  by (cases k, cases l) (auto simp: Key_Equal_def)

lemma Map_Equal_iff: "Map_Equal m l \<longleftrightarrow> m = l"
  by (cases m, cases l) (auto simp: Map_Equal_def)

lemma encode_key_eq:
  "encode_key prev seg =
     (case Key seg of None \<Rightarrow> [] | Some k \<Rightarrow> if prev = Some k then [] else [key_line k])"
  by (auto simp: encode_key_def Key_Equal_iff split: option.splits)

lemma encode_map_eq:
  "encode_map prev seg =
     (case Map seg of None \<Rightarrow> [] | Some m \<Rightarrow> if prev = Some m then [] else [map_line m])"
  by (auto simp: encode_map_def Map_Equal_iff split: option.splits)

lemma encode_duration_cache_ok:
  assumes "cache_ok lib p c"
  shows "fst (encode_duration lib p c d) = duration_text lib p d"
    and "cache_ok lib p (snd (encode_duration lib p c d))"
  using assms by (auto simp: encode_duration_def cache_ok_def split: option.splits)

lemma cache_ok_init: "cache_ok lib p (durationCache loop_init)"
  by (simp add: cache_ok_def loop_init_def)

lemma encode_segment_eq:
  assumes "cache_ok lib p (durationCache vars)"
  shows "fst (encode_segment lib p vars seg xss cs) =
      segment_lines lib p (lastKey vars) (lastMap vars) seg (xss, cs)"
    and "lastKey (snd (encode_segment lib p vars seg xss cs)) = Key seg"
    and "lastMap (snd (encode_segment lib p vars seg xss cs)) = Map seg"
    and "cache_ok lib p (durationCache (snd (encode_segment lib p vars seg xss cs)))"
  using encode_duration_cache_ok [OF assms, of "Duration seg"]
  by (auto simp: encode_segment_def segment_lines_def split: prod.splits)

lemma encode_segments_with_nth:
  "cache_ok lib p (durationCache vars) \<Longrightarrow> length visits = length segs \<Longrightarrow>
   encode_segments_with lib p vars segs visits =
     map (\<lambda>i. segment_lines lib p
                (if i = 0 then lastKey vars else Key (segs ! (i - 1)))
                (if i = 0 then lastMap vars else Map (segs ! (i - 1)))
                (segs ! i) (visits ! i))
       [0..<length segs]"
proof (induction segs arbitrary: vars visits)
  case Nil
  then show ?case by simp
next
  case (Cons seg segs)
  then obtain xss cs visits' where v: "visits = (xss, cs) # visits'"
    by (cases visits) auto
  let ?e = "encode_segment lib p vars seg xss cs"
  note s = encode_segment_eq [OF Cons.prems(1), of seg xss cs]
  have k: "(if i = 0 then Key seg else Key (segs ! (i - 1))) = Key ((seg # segs) ! i)"
    "(if i = 0 then Map seg else Map (segs ! (i - 1))) = Map ((seg # segs) ! i)" for i
    by (simp_all add: nth_Cons')
  have "length visits' = length segs" using Cons.prems(2) v by simp
  with s(4) have "encode_segments_with lib p (snd ?e) segs visits' =
      map (\<lambda>i. segment_lines lib p
                (if i = 0 then lastKey (snd ?e) else Key (segs ! (i - 1)))
                (if i = 0 then lastMap (snd ?e) else Map (segs ! (i - 1)))
                (segs ! i) (visits' ! i))
        [0..<length segs]"
    by (rule Cons.IH)
  then have ih: "encode_segments_with lib p (snd ?e) segs visits' =
      map (\<lambda>i. segment_lines lib p (Key ((seg # segs) ! i)) (Map ((seg # segs) ! i))
                (segs ! i) (visits' ! i))
        [0..<length segs]"
    by (simp only: s k)
  have "encode_segments_with lib p vars (seg # segs) visits =
      fst ?e # encode_segments_with lib p (snd ?e) segs visits'"
    by (simp add: v split: prod.splits)
  also have "\<dots> = segment_lines lib p (lastKey vars) (lastMap vars) seg (xss, cs) #
      map (\<lambda>i. segment_lines lib p (Key ((seg # segs) ! i)) (Map ((seg # segs) ! i))
                (segs ! i) (visits' ! i))
        [0..<length segs]"
    by (simp only: s ih)
  also have "\<dots> =
      map (\<lambda>i. segment_lines lib p
                (if i = 0 then lastKey vars else Key ((seg # segs) ! (i - 1)))
                (if i = 0 then lastMap vars else Map ((seg # segs) ! (i - 1)))
                ((seg # segs) ! i) (visits ! i))
        [0..<length (seg # segs)]"
    by (simp add: v upt_conv_Cons map_Suc_upt [symmetric] del: upt_Suc)
  finally show ?case .
qed

lemma encode_segments_with:
  "list_all2 visit_of segs visits \<Longrightarrow>
   encode_segments lib p vars segs (encode_segments_with lib p vars segs visits)"
proof (induction segs arbitrary: vars visits)
  case Nil
  then show ?case by (auto intro: encode_segments.intros)
next
  case (Cons seg segs)
  then obtain xss cs visits' where v: "visits = (xss, cs) # visits'"
    and ok: "visit_of seg (xss, cs)" and rest: "list_all2 visit_of segs visits'"
    by (cases visits) auto
  obtain ls vars' where e: "encode_segment lib p vars seg xss cs = (ls, vars')"
    by (cases "encode_segment lib p vars seg xss cs")
  have "encode_segments lib p vars' segs (encode_segments_with lib p vars' segs visits')"
    using rest by (rule Cons.IH)
  then have "encode_segments lib p vars (seg # segs)
      (ls # encode_segments_with lib p vars' segs visits')"
    using ok e by (auto simp: visit_of_def intro: encode_segments.intros)
  then show ?case by (simp add: v e)
qed

lemma encode_segments_visits:
  "encode_segments lib p vars segs out \<Longrightarrow>
   \<exists>visits. list_all2 visit_of segs visits \<and> out = encode_segments_with lib p vars segs visits"
proof (induction rule: encode_segments.induct)
  case (encode_segments_Nil vars)
  have "list_all2 visit_of [] [] \<and> [] = encode_segments_with lib p vars [] []" by simp
  then show ?case by blast
next
  case (encode_segments_Cons seg xss cs vars ls vars' segs out)
  then obtain visits where v: "list_all2 visit_of segs visits"
    "out = encode_segments_with lib p vars' segs visits"
    by blast
  have "list_all2 visit_of (seg # segs) ((xss, cs) # visits) \<and>
      ls # out = encode_segments_with lib p vars (seg # segs) ((xss, cs) # visits)"
    using encode_segments_Cons.hyps v by (simp add: visit_of_def)
  then show ?case by blast
qed

lemma MediaPlaylist_Encode_iff:
  "MediaPlaylist_Encode lib p buf \<longleftrightarrow>
     (\<exists>cs visits. range_map (Custom p) cs \<and> list_all2 visit_of (segments p) visits \<and>
        buf = MediaPlaylist_Encode_with lib p cs visits)"
proof
  assume "MediaPlaylist_Encode lib p buf"
  then obtain cs out where cs: "range_map (Custom p) cs"
    and out: "encode_segments lib p loop_init (segments p) out"
    and buf: "buf = encode_media_header p @ text_of (encode_custom cs) @ encode_media_tags lib p @
          encode_WV (WV p) @ text_of (concat out) @
          (if Closed p then ''#EXT-X-ENDLIST'' @ nl else [])"
    by (auto elim: MediaPlaylist_Encode.cases)
  from out obtain visits where "list_all2 visit_of (segments p) visits"
    "out = encode_segments_with lib p loop_init (segments p) visits"
    using encode_segments_visits by blast
  with cs buf show "\<exists>cs visits. range_map (Custom p) cs \<and>
      list_all2 visit_of (segments p) visits \<and> buf = MediaPlaylist_Encode_with lib p cs visits"
    unfolding MediaPlaylist_Encode_with_def by blast
next
  assume "\<exists>cs visits. range_map (Custom p) cs \<and> list_all2 visit_of (segments p) visits \<and>
      buf = MediaPlaylist_Encode_with lib p cs visits"
  then show "MediaPlaylist_Encode lib p buf"
    unfolding MediaPlaylist_Encode_with_def
    by (auto intro!: MediaPlaylist_EncodeI encode_segments_with)
qed

lemma MasterPlaylist_Encode_iff:
  "MasterPlaylist_Encode lib m buf \<longleftrightarrow>
     (\<exists>cs. range_map (M_Custom m) cs \<and> buf = MasterPlaylist_Encode_with lib m cs)"
  unfolding MasterPlaylist_Encode_def MasterPlaylist_Encode_with_def
  by (auto elim!: MasterPlaylist_lines.cases intro: MasterPlaylist_lines.intros)

lemma text_of_concat: "text_of (concat xs) = concat (map text_of xs)"
  by (induction xs) (simp_all add: text_of_def)

lemma MediaPlaylist_Encode_with_text:
  assumes "length visits = length (Segments p)"
  shows "MediaPlaylist_Encode_with lib p cs visits =
     encode_media_header p @ text_of (encode_custom cs) @ encode_media_tags lib p @
     encode_WV (WV p) @
     concat (map (\<lambda>i. text_of (segment_lines lib p
                (if i = 0 then None else Key (heap p (Segments p ! (i - 1))))
                (if i = 0 then None else Map (heap p (Segments p ! (i - 1))))
                (heap p (Segments p ! i)) (visits ! i)))
       [0..<length (Segments p)]) @
     (if Closed p then ''#EXT-X-ENDLIST'' @ nl else [])"
proof -
  have l: "length visits = length (segments p)" using assms by (simp add: segments_def)
  have "encode_segments_with lib p loop_init (segments p) visits =
      map (\<lambda>i. segment_lines lib p
                (if i = 0 then None else Key (segments p ! (i - 1)))
                (if i = 0 then None else Map (segments p ! (i - 1)))
                (segments p ! i) (visits ! i))
        [0..<length (segments p)]"
    using encode_segments_with_nth [OF cache_ok_init l, of lib p]
    by (simp add: loop_init_def)
  also have "\<dots> =
      map (\<lambda>i. segment_lines lib p
                (if i = 0 then None else Key (heap p (Segments p ! (i - 1))))
                (if i = 0 then None else Map (heap p (Segments p ! (i - 1))))
                (heap p (Segments p ! i)) (visits ! i))
        [0..<length (Segments p)]"
    by (rule map_cong) (auto simp: segments_def)
  finally show ?thesis
    by (simp add: MediaPlaylist_Encode_with_def text_of_concat comp_def)
qed

subsection \<open>Every call of Encode returns\<close>

lemma range_map_total: "\<exists>es. range_map m es"
proof (induction m rule: fmap_induct)
  case fmempty
  have "range_map fmempty []" by (simp add: range_map_def)
  then show ?case ..
next
  case (fmupd x y m)
  then obtain es where es: "distinct (map fst es)" "fmap_of_list es = m"
    by (auto simp: range_map_def)
  have "x |\<notin>| fmdom (fmap_of_list es)" using fmupd es by (simp add: fmdom_notI)
  then have "x \<notin> set (map fst es)" by (simp add: fmdom_fmap_of_list fset_of_list.rep_eq)
  then have "range_map (fmupd x y m) ((x, y) # es)"
    using es by (simp add: range_map_def)
  then show ?case ..
qed

lemma range_dateranges_total:
  "\<exists>xss. list_all2 (\<lambda>daterange xs. range_map (X daterange) xs) drs xss"
proof (induction drs)
  case Nil
  show ?case by simp
next
  case (Cons dr drs)
  then obtain xss where "list_all2 (\<lambda>daterange xs. range_map (X daterange) xs) drs xss" ..
  moreover obtain xs where "range_map (X dr) xs" using range_map_total by blast
  ultimately have "list_all2 (\<lambda>daterange xs. range_map (X daterange) xs) (dr # drs) (xs # xss)"
    by simp
  then show ?case ..
qed

lemma encode_segments_total: "\<exists>out. encode_segments lib p vars segs out"
proof (induction segs arbitrary: vars)
  case Nil
  show ?case by (blast intro: encode_segments.intros)
next
  case (Cons seg segs)
  obtain xss where xss: "list_all2 (\<lambda>daterange xs. range_map (X daterange) xs) (Dateranges seg) xss"
    using range_dateranges_total by blast
  obtain cs where cs: "range_map (Seg_Custom seg) cs" using range_map_total by blast
  obtain ls vars' where e: "encode_segment lib p vars seg xss cs = (ls, vars')"
    by (cases "encode_segment lib p vars seg xss cs")
  obtain out where "encode_segments lib p vars' segs out" using Cons by blast
  then have "encode_segments lib p vars (seg # segs) (ls # out)"
    using xss cs e by (blast intro: encode_segments.intros)
  then show ?case ..
qed

lemma MediaPlaylist_Encode_total: "\<exists>buf. MediaPlaylist_Encode lib p buf"
proof -
  obtain cs where "range_map (Custom p) cs" using range_map_total by blast
  moreover obtain out where "encode_segments lib p loop_init (segments p) out"
    using encode_segments_total by blast
  ultimately show ?thesis by (blast intro: MediaPlaylist_Encode.intros)
qed

lemma MasterPlaylist_Encode_total: "\<exists>buf. MasterPlaylist_Encode lib p buf"
proof -
  obtain cs where "range_map (M_Custom p) cs" using range_map_total by blast
  then show ?thesis
    unfolding MasterPlaylist_Encode_def by (blast intro: MasterPlaylist_lines.intros)
qed

subsection \<open>Calls that visit the maps in the same order\<close>

lemma range_map_length: "range_map m es \<Longrightarrow> length es = fcard (fmdom m)"
proof -
  assume r: "range_map m es"
  then have "fmap_of_list es = m" by (simp add: range_map_def)
  then have "fmdom m = fmdom (fmap_of_list es)" by simp
  then have "fmdom m = fset_of_list (map fst es)" by (simp only: fmdom_fmap_of_list)
  then have "fcard (fmdom m) = card (set (map fst es))"
    by (simp add: fcard.rep_eq fset_of_list.rep_eq)
  also have "\<dots> = length (map fst es)"
    using r unfolding range_map_def by (intro distinct_card) simp
  finally show ?thesis by simp
qed

lemma range_map_unique:
  assumes "single_entry m" and "range_map m es" and "range_map m es'"
  shows "es = es'"
proof -
  have l: "length es \<le> 1" "length es' \<le> 1"
    using assms by (simp_all add: single_entry_def range_map_length)
  have eq: "fmap_of_list es = fmap_of_list es'"
    using assms by (simp add: range_map_def)
  show ?thesis
  proof (cases es)
    case Nil
    then have "fmdom (fmap_of_list es') = {||}" using eq by (metis fmap_of_list_simps(1) fmdom_empty)
    then have "es' = []" by (cases es') auto
    with Nil show ?thesis by simp
  next
    case (Cons e es1)
    then have es: "es = [e]" using l by (cases es1) auto
    have "fmdom (fmap_of_list es') \<noteq> {||}" using eq es by (cases e) (auto simp flip: eq)
    then obtain e' es1' where "es' = e' # es1'" by (cases es') auto
    then have es': "es' = [e']" using l by (cases es1') auto
    obtain k v k' v' where e: "e = (k, v)" "e' = (k', v')" by (cases e, cases e') auto
    have "fmlookup (fmap_of_list es) k = fmlookup (fmap_of_list es') k" using eq by simp
    then have "k = k' \<and> v = v'" by (auto simp: es es' e split: if_splits)
    then show ?thesis by (simp add: es es' e)
  qed
qed

lemma range_dateranges_unique:
  assumes "list_all (\<lambda>daterange. single_entry (X daterange)) drs"
    and "list_all2 (\<lambda>daterange xs. range_map (X daterange) xs) drs xss"
    and "list_all2 (\<lambda>daterange xs. range_map (X daterange) xs) drs xss'"
  shows "xss = xss'"
  using assms
proof (induction drs arbitrary: xss xss')
  case Nil
  then show ?case by simp
next
  case (Cons dr drs)
  then show ?case
    by (auto simp: list_all2_Cons1 dest: range_map_unique)
qed

lemma encode_segments_unique:
  assumes "encode_segments lib p vars segs out" and "encode_segments lib p vars segs out'"
    and "list_all single_entry_segment segs"
  shows "out = out'"
  using assms
proof (induction arbitrary: out' rule: encode_segments.induct)
  case (encode_segments_Nil vars)
  then show ?case by (auto elim: encode_segments.cases)
next
  case (encode_segments_Cons seg xss cs vars ls vars' segs out)
  from encode_segments_Cons.prems(1)
  obtain xss' cs' ls' vars'' out'' where o: "out' = ls' # out''"
    and x: "list_all2 (\<lambda>daterange xs. range_map (X daterange) xs) (Dateranges seg) xss'"
    and c: "range_map (Seg_Custom seg) cs'"
    and e: "encode_segment lib p vars seg xss' cs' = (ls', vars'')"
    and r: "encode_segments lib p vars'' segs out''"
    by (auto elim: encode_segments.cases)
  have s: "single_entry_segment seg" "list_all single_entry_segment segs"
    using encode_segments_Cons.prems(2) by simp_all
  have "xss' = xss"
    using s(1) x encode_segments_Cons.hyps(1)
    by (auto simp: single_entry_segment_def intro: range_dateranges_unique)
  moreover have "cs' = cs"
    using s(1) c encode_segments_Cons.hyps(2)
    by (auto simp: single_entry_segment_def intro: range_map_unique)
  ultimately have "ls' = ls" "vars'' = vars'"
    using e encode_segments_Cons.hyps(3) by simp_all
  then have "out = out''" using r s(2) encode_segments_Cons.IH by blast
  then show ?case using o \<open>ls' = ls\<close> by simp
qed

lemma MediaPlaylist_Encode_unique:
  assumes "single_entry_playlist p"
    and "MediaPlaylist_Encode lib p buf1" and "MediaPlaylist_Encode lib p buf2"
  shows "buf1 = buf2"
proof -
  obtain cs1 out1 where 1: "range_map (Custom p) cs1"
    "encode_segments lib p loop_init (segments p) out1"
    "buf1 = encode_media_header p @ text_of (encode_custom cs1) @ encode_media_tags lib p @
          encode_WV (WV p) @ text_of (concat out1) @
          (if Closed p then ''#EXT-X-ENDLIST'' @ nl else [])"
    using assms(2) by (auto elim: MediaPlaylist_Encode.cases)
  obtain cs2 out2 where 2: "range_map (Custom p) cs2"
    "encode_segments lib p loop_init (segments p) out2"
    "buf2 = encode_media_header p @ text_of (encode_custom cs2) @ encode_media_tags lib p @
          encode_WV (WV p) @ text_of (concat out2) @
          (if Closed p then ''#EXT-X-ENDLIST'' @ nl else [])"
    using assms(3) by (auto elim: MediaPlaylist_Encode.cases)
  have "cs1 = cs2"
    using assms(1) 1(1) 2(1) by (auto simp: single_entry_playlist_def intro: range_map_unique)
  moreover have "out1 = out2"
    using assms(1) 1(2) 2(2) by (auto simp: single_entry_playlist_def intro: encode_segments_unique)
  ultimately show ?thesis using 1(3) 2(3) by simp
qed

lemma MasterPlaylist_Encode_unique:
  assumes "single_entry (M_Custom m)"
    and "MasterPlaylist_Encode lib m buf1" and "MasterPlaylist_Encode lib m buf2"
  shows "buf1 = buf2"
  using assms
  by (auto simp: MasterPlaylist_Encode_def elim!: MasterPlaylist_lines.cases
      dest: range_map_unique)

lemma range_map_fmempty: "range_map fmempty cs \<longleftrightarrow> cs = []"
proof
  assume "range_map fmempty cs"
  then have "fmdom (fmap_of_list cs) = {||}" by (simp add: range_map_def)
  then show "cs = []" by (cases cs) auto
qed (simp add: range_map_def)

lemma visit_of_plain:
  "Dateranges seg = [] \<Longrightarrow> Seg_Custom seg = fmempty \<Longrightarrow> visit_of seg v \<longleftrightarrow> v = ([], [])"
  by (cases v) (auto simp: visit_of_def range_map_fmempty)

subsection \<open>The window size in Encode\<close>

lemma encode_winsize:
  "duration_text lib (p\<lparr>winsize := w\<rparr>) = duration_text lib p"
  "extinf_line (p\<lparr>winsize := w\<rparr>) = extinf_line p"
  "encode_media_header (p\<lparr>winsize := w\<rparr>) = encode_media_header p"
  "encode_media_tags lib (p\<lparr>winsize := w\<rparr>) = encode_media_tags lib p"
  "segments (p\<lparr>winsize := w\<rparr>) = segments p"
  by (simp_all add: duration_text_def extinf_line_def encode_media_header_def
      encode_media_tags_def segments_def fun_eq_iff)

lemma encode_duration_winsize:
  "encode_duration lib (p\<lparr>winsize := w\<rparr>) = encode_duration lib p"
  by (simp add: encode_duration_def encode_winsize fun_eq_iff split: option.splits)

lemma encode_segment_winsize: "encode_segment lib (p\<lparr>winsize := w\<rparr>) = encode_segment lib p"
  by (simp add: encode_segment_def encode_duration_winsize encode_winsize fun_eq_iff)

lemma encode_segments_with_winsize:
  "encode_segments_with lib (p\<lparr>winsize := w\<rparr>) vars segs visits =
   encode_segments_with lib p vars segs visits"
proof (induction segs arbitrary: vars visits)
  case Nil
  show ?case by simp
next
  case (Cons seg segs)
  then show ?case
    by (cases visits) (auto simp: encode_segment_winsize split: prod.splits)
qed

lemma MediaPlaylist_Encode_with_winsize:
  "MediaPlaylist_Encode_with lib (p\<lparr>winsize := w\<rparr>) cs visits =
   MediaPlaylist_Encode_with lib p cs visits"
  by (simp add: MediaPlaylist_Encode_with_def encode_winsize encode_segments_with_winsize)

lemma Encode_winsize:
  "MediaPlaylist_Encode lib (p\<lparr>winsize := w\<rparr>) buf \<longleftrightarrow> MediaPlaylist_Encode lib p buf"
  by (simp add: MediaPlaylist_Encode_iff MediaPlaylist_Encode_with_winsize encode_winsize)

subsection \<open>The example playlists\<close>

lemma SetKey_fields:
  assumes "Segments p \<noteq> []"
  shows "fst (SetKey method uri iv keyformat keyformatversions p) = None"
    and "Segments (snd (SetKey method uri iv keyformat keyformatversions p)) = Segments p"
    and "heap (snd (SetKey method uri iv keyformat keyformatversions p)) =
      (heap p)(last (Segments p) := (heap p (last (Segments p)))\<lparr>Key :=
         Some \<lparr>Method = method, Key_URI = uri, IV = iv, Keyformat = keyformat,
               Keyformatversions = keyformatversions\<rparr>\<rparr>)"
    and "ver (snd (SetKey method uri iv keyformat keyformatversions p)) =
      (if keyformat \<noteq> [] \<or> keyformatversions \<noteq> [] then version (ver p) 5 else ver p)"
    and "TargetDuration (snd (SetKey method uri iv keyformat keyformatversions p)) =
      TargetDuration p"
    and "SeqNo (snd (SetKey method uri iv keyformat keyformatversions p)) = SeqNo p"
    and "Args (snd (SetKey method uri iv keyformat keyformatversions p)) = Args p"
    and "Iframe (snd (SetKey method uri iv keyformat keyformatversions p)) = Iframe p"
    and "Closed (snd (SetKey method uri iv keyformat keyformatversions p)) = Closed p"
    and "MediaType (snd (SetKey method uri iv keyformat keyformatversions p)) = MediaType p"
    and "DiscontinuitySeq (snd (SetKey method uri iv keyformat keyformatversions p)) =
      DiscontinuitySeq p"
    and "StartTime (snd (SetKey method uri iv keyformat keyformatversions p)) = StartTime p"
    and "durationAsInt (snd (SetKey method uri iv keyformat keyformatversions p)) =
      durationAsInt p"
    and "winsize (snd (SetKey method uri iv keyformat keyformatversions p)) = winsize p"
    and "WV (snd (SetKey method uri iv keyformat keyformatversions p)) = WV p"
    and "Custom (snd (SetKey method uri iv keyformat keyformatversions p)) = Custom p"
    and "next_addr (snd (SetKey method uri iv keyformat keyformatversions p)) = next_addr p"
  using assms by (simp_all add: SetKey_def upd_last_def)

lemma SetMap_fields:
  assumes "Segments p \<noteq> []"
  shows "fst (SetMap uri limit offset p) = None"
    and "Segments (snd (SetMap uri limit offset p)) = Segments p"
    and "heap (snd (SetMap uri limit offset p)) =
      (heap p)(last (Segments p) := (heap p (last (Segments p)))\<lparr>Map :=
         Some \<lparr>Map_URI = uri, Map_Limit = limit, Map_Offset = offset\<rparr>\<rparr>)"
    and "ver (snd (SetMap uri limit offset p)) = version (ver p) 5"
    and "TargetDuration (snd (SetMap uri limit offset p)) = TargetDuration p"
    and "SeqNo (snd (SetMap uri limit offset p)) = SeqNo p"
    and "Args (snd (SetMap uri limit offset p)) = Args p"
    and "Iframe (snd (SetMap uri limit offset p)) = Iframe p"
    and "Closed (snd (SetMap uri limit offset p)) = Closed p"
    and "MediaType (snd (SetMap uri limit offset p)) = MediaType p"
    and "DiscontinuitySeq (snd (SetMap uri limit offset p)) = DiscontinuitySeq p"
    and "StartTime (snd (SetMap uri limit offset p)) = StartTime p"
    and "durationAsInt (snd (SetMap uri limit offset p)) = durationAsInt p"
    and "winsize (snd (SetMap uri limit offset p)) = winsize p"
    and "WV (snd (SetMap uri limit offset p)) = WV p"
    and "Custom (snd (SetMap uri limit offset p)) = Custom p"
    and "next_addr (snd (SetMap uri limit offset p)) = next_addr p"
  using assms by (simp_all add: SetMap_def upd_last_def)

lemma example_playlist_fields:
  "TargetDuration example_playlist = 10" "SeqNo example_playlist = 0"
  "Args example_playlist = []" "Iframe example_playlist = False"
  "Closed example_playlist = False" "MediaType example_playlist = MediaType_None"
  "DiscontinuitySeq example_playlist = 0" "StartTime example_playlist = 0"
  "durationAsInt example_playlist = False" "winsize example_playlist = 2"
  "ver example_playlist = 5" "WV example_playlist = None" "Custom example_playlist = fmempty"
  "Segments example_playlist = [0, 1, 2]"
  by (simp_all add: example_playlist_def fields SetKey_fields SetMap_fields version_def)

lemma example_playlist_heap:
  "heap example_playlist 0 =
     new_MediaSegment\<lparr>URI := ''a.ts'', Duration := 9009 / 1000, Key := Some example_key1\<rparr>"
  "heap example_playlist (Suc 0) =
     new_MediaSegment\<lparr>SeqId := 1, URI := ''b.ts'', Duration := 9009 / 1000,
        Key := Some example_key1, Map := Some example_map\<rparr>"
  "heap example_playlist 2 =
     new_MediaSegment\<lparr>SeqId := 2, URI := ''c.ts'', Duration := 3003 / 1000,
        Key := Some example_key2, Map := Some example_map\<rparr>"
  by (simp_all add: example_playlist_def fields SetKey_fields SetMap_fields
      example_key1_def example_key2_def example_map_def new_MediaSegment_def)

lemma example_playlist_visits:
  "list_all2 visit_of (map (heap example_playlist) (Segments example_playlist)) visits \<longleftrightarrow>
   visits = [([], []), ([], []), ([], [])]"
  by (auto simp: example_playlist_fields example_playlist_heap list_all2_Cons1 visit_of_plain
      new_MediaSegment_def)

subsection \<open>Key and map tags\<close>

text \<open>
  Claim C6.  The texts that \<open>Encode\<close> can return for a media playlist are exactly the
  following, for the orders in which the call visits the maps: the head of the playlist,
  then for each retained segment, front to back, the lines of that segment, then the
  end-list tag if the playlist is closed.  Among the lines of a segment, after its SCTE
  and date-range lines, the \<open>#EXT-X-KEY\<close> tag of the segment's key is written exactly
  when the segment has a key and that key is not equal by value to the key of the segment
  before it; the first segment has nothing before it (the state is \<open>None\<close> at the
  start of every call), and a segment before it without key counts as different.  After
  the discontinuity line the \<open>#EXT-X-MAP\<close> tag of the segment's map is written under
  the same condition on maps.  So of two adjacent segments with equal keys the second
  gets no key tag, and of two adjacent segments with different keys each gets its own.
\<close>

theorem Encode_key_map_tags:
  "MediaPlaylist_Encode lib p buf \<longleftrightarrow>
   (\<exists>cs visits.
      range_map (Custom p) cs \<and>
      list_all2 visit_of (map (heap p) (Segments p)) visits \<and>
      buf =
        encode_media_header p @ concat (map snd (encode_custom cs)) @
        encode_media_tags lib p @ encode_WV (WV p) @
        concat (map (\<lambda>i.
          let seg = heap p (Segments p ! i);
              prevKey = (if i = 0 then None else Key (heap p (Segments p ! (i - 1))));
              prevMap = (if i = 0 then None else Map (heap p (Segments p ! (i - 1))))
          in concat (map snd (encode_SCTE lib (SCTE seg))) @
             concat (map snd (map2 (encode_daterange lib) (Dateranges seg) (fst (visits ! i)))) @
             (case Key seg of
                None \<Rightarrow> []
              | Some k \<Rightarrow>
                  if prevKey = Some k then []
                  else ''#EXT-X-KEY:METHOD='' @ Method k @
                       (if Method k \<noteq> ''NONE''
                        then '',URI='' @ dq @ Key_URI k @ dq @
                             (if IV k \<noteq> [] then '',IV='' @ IV k else []) @
                             (if Keyformat k \<noteq> []
                              then '',KEYFORMAT='' @ dq @ Keyformat k @ dq else []) @
                             (if Keyformatversions k \<noteq> []
                              then '',KEYFORMATVERSIONS='' @ dq @ Keyformatversions k @ dq
                              else [])
                        else []) @
                       nl) @
             concat (map snd (encode_discontinuity seg)) @
             (case Map seg of
                None \<Rightarrow> []
              | Some m \<Rightarrow>
                  if prevMap = Some m then []
                  else ''#EXT-X-MAP:URI='' @ dq @ Map_URI m @ dq @
                       (if Map_Limit m > 0
                        then '',BYTERANGE='' @ FormatInt (Map_Limit m) @ ''@'' @
                             FormatInt (Map_Offset m)
                        else []) @
                       nl) @
             concat (map snd (encode_program_date_time lib seg)) @
             concat (map snd (encode_byterange seg)) @
             concat (map snd (encode_custom (snd (visits ! i)))) @
             snd (extinf_line p seg (duration_text lib p (Duration seg))))
          [0..<length (Segments p)]) @
        (if Closed p then ''#EXT-X-ENDLIST'' @ nl else []))"
proof -
  have t: "text_of (segment_lines lib p prevKey prevMap seg v) =
      concat (map snd (encode_SCTE lib (SCTE seg))) @
      concat (map snd (map2 (encode_daterange lib) (Dateranges seg) (fst v))) @
      (case Key seg of
         None \<Rightarrow> []
       | Some k \<Rightarrow>
           if prevKey = Some k then []
           else ''#EXT-X-KEY:METHOD='' @ Method k @
                (if Method k \<noteq> ''NONE''
                 then '',URI='' @ dq @ Key_URI k @ dq @
                      (if IV k \<noteq> [] then '',IV='' @ IV k else []) @
                      (if Keyformat k \<noteq> []
                       then '',KEYFORMAT='' @ dq @ Keyformat k @ dq else []) @
                      (if Keyformatversions k \<noteq> []
                       then '',KEYFORMATVERSIONS='' @ dq @ Keyformatversions k @ dq
                       else [])
                 else []) @
                nl) @
      concat (map snd (encode_discontinuity seg)) @
      (case Map seg of
         None \<Rightarrow> []
       | Some m \<Rightarrow>
           if prevMap = Some m then []
           else ''#EXT-X-MAP:URI='' @ dq @ Map_URI m @ dq @
                (if Map_Limit m > 0
                 then '',BYTERANGE='' @ FormatInt (Map_Limit m) @ ''@'' @
                      FormatInt (Map_Offset m)
                 else []) @
                nl) @
      concat (map snd (encode_program_date_time lib seg)) @
      concat (map snd (encode_byterange seg)) @
      concat (map snd (encode_custom (snd v))) @
      snd (extinf_line p seg (duration_text lib p (Duration seg)))"
    for prevKey prevMap seg v
    by (simp add: segment_lines_def text_of_def encode_key_eq encode_map_eq key_line_def
        map_line_def split: option.splits)
  have "MediaPlaylist_Encode lib p buf \<longleftrightarrow>
     (\<exists>cs visits. range_map (Custom p) cs \<and>
        list_all2 visit_of (map (heap p) (Segments p)) visits \<and>
        buf = MediaPlaylist_Encode_with lib p cs visits)"
    by (simp only: MediaPlaylist_Encode_iff segments_def)
  also have "\<dots> \<longleftrightarrow>
     (\<exists>cs visits. range_map (Custom p) cs \<and>
        list_all2 visit_of (map (heap p) (Segments p)) visits \<and>
        buf = encode_media_header p @ text_of (encode_custom cs) @ encode_media_tags lib p @
          encode_WV (WV p) @
          concat (map (\<lambda>i. text_of (segment_lines lib p
                (if i = 0 then None else Key (heap p (Segments p ! (i - 1))))
                (if i = 0 then None else Map (heap p (Segments p ! (i - 1))))
                (heap p (Segments p ! i)) (visits ! i)))
            [0..<length (Segments p)]) @
          (if Closed p then ''#EXT-X-ENDLIST'' @ nl else []))"
    by (intro iff_exI conj_cong refl)
      (simp add: MediaPlaylist_Encode_with_text list_all2_lengthD [symmetric])
  finally show ?thesis
    by (simp only: t Let_def) (simp only: text_of_def)
qed

theorem Encode_key_map_tags_witness:
  "{buf. MediaPlaylist_Encode example_lib example_playlist buf} =
   {''#EXTM3U'' @ nl @ ''#EXT-X-VERSION:5'' @ nl @
    ''#EXT-X-MEDIA-SEQUENCE:0'' @ nl @ ''#EXT-X-TARGETDURATION:10'' @ nl @
    ''#EXT-X-KEY:METHOD=AES-128,URI='' @ dq @ ''k1'' @ dq @ nl @
    ''#EXTINF:9.009,'' @ nl @ ''a.ts'' @ nl @
    ''#EXT-X-MAP:URI='' @ dq @ ''init.mp4'' @ dq @ nl @
    ''#EXTINF:9.009,'' @ nl @ ''b.ts'' @ nl @
    ''#EXT-X-KEY:METHOD=AES-128,URI='' @ dq @ ''k2'' @ dq @ nl @
    ''#EXTINF:3.003,'' @ nl @ ''c.ts'' @ nl}"
proof -
  have c: "range_map (Custom example_playlist) cs \<longleftrightarrow> cs = []" for cs
    by (simp add: example_playlist_fields range_map_fmempty)
  have "MediaPlaylist_Encode example_lib example_playlist buf \<longleftrightarrow>
      buf = ''#EXTM3U'' @ nl @ ''#EXT-X-VERSION:5'' @ nl @
        ''#EXT-X-MEDIA-SEQUENCE:0'' @ nl @ ''#EXT-X-TARGETDURATION:10'' @ nl @
        ''#EXT-X-KEY:METHOD=AES-128,URI='' @ dq @ ''k1'' @ dq @ nl @
        ''#EXTINF:9.009,'' @ nl @ ''a.ts'' @ nl @
        ''#EXT-X-MAP:URI='' @ dq @ ''init.mp4'' @ dq @ nl @
        ''#EXTINF:9.009,'' @ nl @ ''b.ts'' @ nl @
        ''#EXT-X-KEY:METHOD=AES-128,URI='' @ dq @ ''k2'' @ dq @ nl @
        ''#EXTINF:3.003,'' @ nl @ ''c.ts'' @ nl" for buf
    unfolding Encode_key_map_tags [of example_lib example_playlist buf] c example_playlist_visits
    by (simp add: example_playlist_fields example_playlist_heap upt_rec Let_def
        new_MediaSegment_def encode_SCTE_def encode_discontinuity_def
        encode_program_date_time_def encode_byterange_def encode_custom_def extinf_line_def
        duration_text_def example_key1_def example_key2_def example_map_def example_lib_def
        zero_Time_def IsZero_def encode_media_header_def encode_media_tags_def encode_WV_def
        strver_def FormatUint.simps FormatInt_def int64_def)
  then show ?thesis by blast
qed

subsection \<open>The window size\<close>

lemma example_window_fields:
  "TargetDuration example_window = 10" "SeqNo example_window = 0"
  "Args example_window = []" "Iframe example_window = False"
  "Closed example_window = False" "MediaType example_window = MediaType_None"
  "DiscontinuitySeq example_window = 0" "StartTime example_window = 0"
  "durationAsInt example_window = True" "winsize example_window = 1"
  "ver example_window = 3" "WV example_window = None" "Custom example_window = fmempty"
  "Segments example_window = [0, 1]" "next_addr example_window = 2"
  by (simp_all add: example_window_def fields DurationAsInt_def NewMediaPlaylist_def
      version_def)

lemma example_window_heap:
  "heap example_window 0 =
     new_MediaSegment\<lparr>URI := ''a.ts'', Duration := 9009 / 1000, Title := ''t''\<rparr>"
  "heap example_window (Suc 0) =
     new_MediaSegment\<lparr>SeqId := 1, URI := ''b.ts'', Duration := 21 / 5\<rparr>"
  by (simp_all add: example_window_def fields DurationAsInt_def NewMediaPlaylist_def
      new_MediaSegment_def)

lemma example_window_visits:
  "list_all2 visit_of (map (heap example_window) (Segments example_window)) visits \<longleftrightarrow>
   visits = [([], []), ([], [])]"
  by (auto simp: example_window_fields example_window_heap list_all2_Cons1 visit_of_plain
      new_MediaSegment_def)

lemma AppendSegment_winsize:
  "AppendSegment seg (p\<lparr>winsize := w\<rparr>) = (None, (snd (AppendSegment seg p))\<lparr>winsize := w\<rparr>)"
  by (simp add: AppendSegment_def Let_def)

lemma Append_winsize:
  "Append uri d title (p\<lparr>winsize := w\<rparr>) = (None, (snd (Append uri d title p))\<lparr>winsize := w\<rparr>)"
proof -
  have "AppendSegment seg (p\<lparr>winsize := w, next_addr := n, heap := h\<rparr>) =
      (None, (snd (AppendSegment seg (p\<lparr>next_addr := n, heap := h\<rparr>)))\<lparr>winsize := w\<rparr>)"
    for seg n h
    by (simp add: AppendSegment_def Let_def)
  then show ?thesis unfolding Append_eq by simp
qed

text \<open>
  The duration text of a segment of \<open>10\<^sup>1\<^sup>9\<close> seconds on a playlist with durations
  as integers: the ceiling is outside the range of \<open>int64\<close>, and what is printed is the
  value that the platform gives to the conversion.
\<close>

lemma duration_text_out_of_range:
  "duration_text example_lib (DurationAsInt True (NewMediaPlaylist 3 1)) 10000000000000000000 =
   ''-9223372036854775808''"
  by (simp add: duration_text_def DurationAsInt_def int64_def example_lib_def FormatInt_def
      FormatUint.simps)

text \<open>
  Claim C10.  \<open>AppendSegment\<close> and \<open>Append\<close> return no error and put one more
  pointer at the back of the list, whatever the count and the window size are; neither
  they nor \<open>Remove\<close> read the window size, and \<open>Remove\<close> never returns the
  full-playlist error.  \<open>Encode\<close> returns the same texts whatever the window size is,
  and every text it returns holds, between the head of the playlist and the end-list
  tag, the lines of every retained segment in order, each ending with the \<open>#EXTINF\<close>
  line and the URI line of the segment.
\<close>

theorem window_size_only_in_Slide:
  "fst (AppendSegment seg p) = None \<and>
   fst (Append uri d title p) = None \<and>
   Segments (snd (AppendSegment seg p)) = Segments p @ [seg] \<and>
   Segments (snd (Append uri d title p)) = Segments p @ [next_addr p] \<and>
   Count (snd (AppendSegment seg p)) = Count p + 1 \<and>
   Count (snd (Append uri d title p)) = Count p + 1 \<and>
   AppendSegment seg (p\<lparr>winsize := w\<rparr>) = (None, (snd (AppendSegment seg p))\<lparr>winsize := w\<rparr>) \<and>
   Append uri d title (p\<lparr>winsize := w\<rparr>) = (None, (snd (Append uri d title p))\<lparr>winsize := w\<rparr>) \<and>
   Remove (p\<lparr>winsize := w\<rparr>) = (fst (Remove p), (snd (Remove p))\<lparr>winsize := w\<rparr>) \<and>
   fst (Remove p) \<noteq> Some ErrPlaylistFull \<and>
   (MediaPlaylist_Encode lib (p\<lparr>winsize := w\<rparr>) buf \<longleftrightarrow> MediaPlaylist_Encode lib p buf) \<and>
   (MediaPlaylist_Encode lib p buf \<longrightarrow>
      (\<exists>cs visits.
         range_map (Custom p) cs \<and>
         list_all2 visit_of (map (heap p) (Segments p)) visits \<and>
         buf =
           encode_media_header p @ concat (map snd (encode_custom cs)) @
           encode_media_tags lib p @ encode_WV (WV p) @
           concat (map (\<lambda>i.
             let seg = heap p (Segments p ! i);
                 prevKey = (if i = 0 then None else Key (heap p (Segments p ! (i - 1))));
                 prevMap = (if i = 0 then None else Map (heap p (Segments p ! (i - 1))))
             in concat (map snd (encode_SCTE lib (SCTE seg))) @
                concat (map snd (map2 (encode_daterange lib) (Dateranges seg) (fst (visits ! i)))) @
                concat (map snd (encode_key prevKey seg)) @
                concat (map snd (encode_discontinuity seg)) @
                concat (map snd (encode_map prevMap seg)) @
                concat (map snd (encode_program_date_time lib seg)) @
                concat (map snd (encode_byterange seg)) @
                concat (map snd (encode_custom (snd (visits ! i)))) @
                ''#EXTINF:'' @
                (if durationAsInt p then FormatInt (int64 lib (of_int \<lceil>Duration seg\<rceil>))
                 else FormatFloat lib (Duration seg) 3 32) @
                '','' @ Title seg @ nl @
                URI seg @ (if Args p \<noteq> [] then ''?'' @ Args p else []) @ nl)
             [0..<length (Segments p)]) @
           (if Closed p then ''#EXT-X-ENDLIST'' @ nl else [])))"
proof (intro conjI impI)
  show "(MediaPlaylist_Encode lib (p\<lparr>winsize := w\<rparr>) buf) = (MediaPlaylist_Encode lib p buf)"
    by (rule Encode_winsize)
next
  have t: "text_of (segment_lines lib p prevKey prevMap seg v) =
      concat (map snd (encode_SCTE lib (SCTE seg))) @
      concat (map snd (map2 (encode_daterange lib) (Dateranges seg) (fst v))) @
      concat (map snd (encode_key prevKey seg)) @
      concat (map snd (encode_discontinuity seg)) @
      concat (map snd (encode_map prevMap seg)) @
      concat (map snd (encode_program_date_time lib seg)) @
      concat (map snd (encode_byterange seg)) @
      concat (map snd (encode_custom (snd v))) @
      ''#EXTINF:'' @
      (if durationAsInt p then FormatInt (int64 lib (of_int \<lceil>Duration seg\<rceil>))
       else FormatFloat lib (Duration seg) 3 32) @
      '','' @ Title seg @ nl @
      URI seg @ (if Args p \<noteq> [] then ''?'' @ Args p else []) @ nl"
    for prevKey prevMap seg v
    by (simp add: segment_lines_def text_of_def extinf_line_def duration_text_def)
  assume "MediaPlaylist_Encode lib p buf"
  then obtain cs visits where cs: "range_map (Custom p) cs"
    and v: "list_all2 visit_of (map (heap p) (Segments p)) visits"
    and buf: "buf = MediaPlaylist_Encode_with lib p cs visits"
    unfolding MediaPlaylist_Encode_iff segments_def by blast
  have "length visits = length (Segments p)" using v by (simp add: list_all2_lengthD [symmetric])
  then have "buf = encode_media_header p @ text_of (encode_custom cs) @ encode_media_tags lib p @
       encode_WV (WV p) @
       concat (map (\<lambda>i. text_of (segment_lines lib p
                (if i = 0 then None else Key (heap p (Segments p ! (i - 1))))
                (if i = 0 then None else Map (heap p (Segments p ! (i - 1))))
                (heap p (Segments p ! i)) (visits ! i)))
         [0..<length (Segments p)]) @
       (if Closed p then ''#EXT-X-ENDLIST'' @ nl else [])"
    unfolding buf by (rule MediaPlaylist_Encode_with_text)
  then have "buf =
       encode_media_header p @ concat (map snd (encode_custom cs)) @
       encode_media_tags lib p @ encode_WV (WV p) @
       concat (map (\<lambda>i.
         let seg = heap p (Segments p ! i);
             prevKey = (if i = 0 then None else Key (heap p (Segments p ! (i - 1))));
             prevMap = (if i = 0 then None else Map (heap p (Segments p ! (i - 1))))
         in concat (map snd (encode_SCTE lib (SCTE seg))) @
            concat (map snd (map2 (encode_daterange lib) (Dateranges seg) (fst (visits ! i)))) @
            concat (map snd (encode_key prevKey seg)) @
            concat (map snd (encode_discontinuity seg)) @
            concat (map snd (encode_map prevMap seg)) @
            concat (map snd (encode_program_date_time lib seg)) @
            concat (map snd (encode_byterange seg)) @
            concat (map snd (encode_custom (snd (visits ! i)))) @
            ''#EXTINF:'' @
            (if durationAsInt p then FormatInt (int64 lib (of_int \<lceil>Duration seg\<rceil>))
             else FormatFloat lib (Duration seg) 3 32) @
            '','' @ Title seg @ nl @
            URI seg @ (if Args p \<noteq> [] then ''?'' @ Args p else []) @ nl)
         [0..<length (Segments p)]) @
       (if Closed p then ''#EXT-X-ENDLIST'' @ nl else [])"
    by (simp only: t Let_def) (simp only: text_of_def)
  with cs v show "\<exists>cs visits.
         range_map (Custom p) cs \<and>
         list_all2 visit_of (map (heap p) (Segments p)) visits \<and>
         buf =
           encode_media_header p @ concat (map snd (encode_custom cs)) @
           encode_media_tags lib p @ encode_WV (WV p) @
           concat (map (\<lambda>i.
             let seg = heap p (Segments p ! i);
                 prevKey = (if i = 0 then None else Key (heap p (Segments p ! (i - 1))));
                 prevMap = (if i = 0 then None else Map (heap p (Segments p ! (i - 1))))
             in concat (map snd (encode_SCTE lib (SCTE seg))) @
                concat (map snd (map2 (encode_daterange lib) (Dateranges seg) (fst (visits ! i)))) @
                concat (map snd (encode_key prevKey seg)) @
                concat (map snd (encode_discontinuity seg)) @
                concat (map snd (encode_map prevMap seg)) @
                concat (map snd (encode_program_date_time lib seg)) @
                concat (map snd (encode_byterange seg)) @
                concat (map snd (encode_custom (snd (visits ! i)))) @
                ''#EXTINF:'' @
                (if durationAsInt p then FormatInt (int64 lib (of_int \<lceil>Duration seg\<rceil>))
                 else FormatFloat lib (Duration seg) 3 32) @
                '','' @ Title seg @ nl @
                URI seg @ (if Args p \<noteq> [] then ''?'' @ Args p else []) @ nl)
             [0..<length (Segments p)]) @
           (if Closed p then ''#EXT-X-ENDLIST'' @ nl else [])"
    by blast
qed (simp_all add: fields Count_def Remove_def Let_def AppendSegment_winsize Append_winsize)

theorem window_size_only_in_Slide_witness:
  "winsize example_window = 1 \<and> Count example_window = 2 \<and>
   fst (Append ''c.ts'' 4 [] example_window) = None \<and>
   Segments (snd (Append ''c.ts'' 4 [] example_window)) = [0, 1, 2] \<and>
   (\<exists>buf. MediaPlaylist_Encode example_lib example_window buf) \<and>
   {buf. MediaPlaylist_Encode example_lib example_window buf} \<subseteq>
   {''#EXTM3U'' @ nl @ ''#EXT-X-VERSION:3'' @ nl @
    ''#EXT-X-MEDIA-SEQUENCE:0'' @ nl @ ''#EXT-X-TARGETDURATION:10'' @ nl @
    ''#EXTINF:10,t'' @ nl @ ''a.ts'' @ nl @
    ''#EXTINF:5,'' @ nl @ ''b.ts'' @ nl}"
proof -
  have c: "range_map (Custom example_window) cs \<longleftrightarrow> cs = []" for cs
    by (simp add: example_window_fields range_map_fmempty)
  note t = window_size_only_in_Slide [of 2 example_window "''c.ts''" 4 "[]" 5 example_lib]
  have "buf = ''#EXTM3U'' @ nl @ ''#EXT-X-VERSION:3'' @ nl @
        ''#EXT-X-MEDIA-SEQUENCE:0'' @ nl @ ''#EXT-X-TARGETDURATION:10'' @ nl @
        ''#EXTINF:10,t'' @ nl @ ''a.ts'' @ nl @
        ''#EXTINF:5,'' @ nl @ ''b.ts'' @ nl"
    if "MediaPlaylist_Encode example_lib example_window buf" for buf
    using t [of buf, THEN conjunct2, THEN conjunct2, THEN conjunct2, THEN conjunct2,
        THEN conjunct2, THEN conjunct2, THEN conjunct2, THEN conjunct2, THEN conjunct2,
        THEN conjunct2, THEN conjunct2] that
    unfolding c example_window_visits
    by (simp add: example_window_fields example_window_heap upt_rec Let_def
        new_MediaSegment_def encode_SCTE_def encode_discontinuity_def encode_key_def
        encode_map_def encode_program_date_time_def encode_byterange_def encode_custom_def
        example_lib_def zero_Time_def IsZero_def encode_media_header_def
        encode_media_tags_def encode_WV_def strver_def FormatUint.simps FormatInt_def
        int64_def)
  moreover have "Segments (snd (Append ''c.ts'' 4 [] example_window)) = [0, 1, 2]"
    using t [THEN conjunct2, THEN conjunct2, THEN conjunct2, THEN conjunct1]
    by (simp add: example_window_fields)
  moreover have "fst (Append ''c.ts'' 4 [] example_window) = None"
    using t [THEN conjunct2, THEN conjunct1] .
  moreover have "Count example_window = 2"
    by (simp add: Count_def example_window_fields)
  ultimately show ?thesis
    using MediaPlaylist_Encode_total [of example_lib example_window]
    by (auto simp: example_window_fields)
qed

subsection \<open>Determinism of Encode\<close>

lemma MediaPlaylist_Encode_with_sound:
  "range_map (Custom p) cs \<Longrightarrow> list_all2 visit_of (segments p) visits \<Longrightarrow>
   MediaPlaylist_Encode lib p (MediaPlaylist_Encode_with lib p cs visits)"
  unfolding MediaPlaylist_Encode_iff by blast

lemma MasterPlaylist_Encode_with_sound:
  "range_map (M_Custom p) cs \<Longrightarrow>
   MasterPlaylist_Encode lib p (MasterPlaylist_Encode_with lib p cs)"
  unfolding MasterPlaylist_Encode_iff by blast

lemma example_single_fields:
  "TargetDuration example_single = 10" "SeqNo example_single = 0"
  "Args example_single = []" "Iframe example_single = False"
  "Closed example_single = False" "MediaType example_single = MediaType_None"
  "DiscontinuitySeq example_single = 0" "StartTime example_single = 0"
  "durationAsInt example_single = False" "winsize example_single = 2"
  "ver example_single = 5" "WV example_single = None"
  "Custom example_single = fmupd ''#A:'' example_tagA fmempty"
  "Segments example_single = [0, 1, 2]"
  "heap example_single = heap example_playlist"
  by (simp_all add: example_single_def SetCustomTag_def example_playlist_fields example_tagA_def)

lemma example_single_segments:
  "segments example_single =
     [new_MediaSegment\<lparr>URI := ''a.ts'', Duration := 9009 / 1000, Key := Some example_key1\<rparr>,
      new_MediaSegment\<lparr>SeqId := 1, URI := ''b.ts'', Duration := 9009 / 1000,
        Key := Some example_key1, Map := Some example_map\<rparr>,
      new_MediaSegment\<lparr>SeqId := 2, URI := ''c.ts'', Duration := 3003 / 1000,
        Key := Some example_key2, Map := Some example_map\<rparr>]"
  by (simp add: segments_def example_single_fields example_playlist_heap)

lemma example_single_Encode_with:
  "MediaPlaylist_Encode_with example_lib example_single [(''#A:'', example_tagA)]
     [([], []), ([], []), ([], [])] = example_single_text"
  by (simp add: MediaPlaylist_Encode_with_def example_single_text_def example_single_fields
      example_single_segments encode_segment_def new_MediaSegment_def loop_init_def
      encode_duration_def duration_text_def encode_SCTE_def encode_key_def encode_map_def
      encode_discontinuity_def encode_program_date_time_def encode_byterange_def
      encode_custom_def extinf_line_def key_line_def map_line_def Key_Equal_def Map_Equal_def
      example_key1_def example_key2_def example_map_def example_lib_def zero_Time_def
      IsZero_def encode_media_header_def encode_media_tags_def encode_WV_def text_of_def
      example_tagA_def strver_def FormatUint.simps FormatInt_def int64_def)

lemma example_single_Encode:
  "MediaPlaylist_Encode example_lib example_single example_single_text"
proof -
  have "range_map (Custom example_single) [(''#A:'', example_tagA)]"
    by (simp add: range_map_def example_single_fields)
  moreover have "list_all2 visit_of (segments example_single) [([], []), ([], []), ([], [])]"
    by (simp add: example_single_segments visit_of_plain new_MediaSegment_def)
  ultimately have "MediaPlaylist_Encode example_lib example_single
      (MediaPlaylist_Encode_with example_lib example_single [(''#A:'', example_tagA)]
         [([], []), ([], []), ([], [])])"
    by (rule MediaPlaylist_Encode_with_sound)
  then show ?thesis by (simp only: example_single_Encode_with)
qed

lemma single_entry_simps:
  "single_entry fmempty" "single_entry (fmupd k v fmempty)"
  by (simp_all add: single_entry_def fcard.rep_eq)

lemma example_single_single_entry: "single_entry_playlist example_single"
  by (simp add: single_entry_playlist_def single_entry_segment_def example_single_fields
      example_single_segments single_entry_simps new_MediaSegment_def)

lemma example_master_fields:
  "Variants example_master = [\<lparr>Var_URI = ''v.m3u8'', Chunklist = None, Params = example_params\<rparr>]"
  "M_Args example_master = []" "M_ver example_master = 4"
  "independentSegments example_master = False" "M_Custom example_master = fmempty"
  by (simp_all add: example_master_def Master_Append_def NewMasterPlaylist_def Let_def
      example_params_def version_def)

lemma example_altKey: "altKey example_alt1 = altKey example_alt2"
  by (simp add: altKey_def example_alt1_def example_alt2_def)

lemma example_master_lines:
  "encode_variants example_lib example_master Map.empty (Variants example_master) =
     [encode_alternative example_alt1,
      encode_stream_inf example_lib example_master
        \<lparr>Var_URI = ''v.m3u8'', Chunklist = None, Params = example_params\<rparr>]"
  by (simp add: example_master_fields example_params_def example_altKey)

lemma example_master_Encode_with:
  "MasterPlaylist_Encode_with example_lib example_master [] = example_master_text"
  unfolding MasterPlaylist_Encode_with_def example_master_lines
  by (simp add: example_master_text_def encode_master_header_def IndependentSegments_def
      example_master_fields encode_custom_def text_of_def encode_alternative_def
      encode_stream_inf_def example_alt1_def example_params_def strver_def FormatUint.simps)

lemma example_master_Encode:
  "MasterPlaylist_Encode example_lib example_master example_master_text"
proof -
  have "range_map (M_Custom example_master) []"
    by (simp add: example_master_fields range_map_fmempty)
  then have "MasterPlaylist_Encode example_lib example_master
      (MasterPlaylist_Encode_with example_lib example_master [])"
    by (rule MasterPlaylist_Encode_with_sound)
  then show ?thesis by (simp only: example_master_Encode_with)
qed

text \<open>
  Claim C8, amended.  Every call of \<open>Encode\<close>, on a media and on a master playlist,
  returns a text.  The text is determined by the playlist and by the order in which the
  call visits the entries of each map it ranges over (the custom tags of the playlist
  and of each segment, the \<open>X-\<close> attributes of each date range): the texts that a call
  can return are exactly the values of one function of the playlist and these orders,
  taken at the orders that enumerate each map once.  Two calls on the same state that
  visit the maps in the same orders therefore return the same text; and on a media
  playlist in which none of these maps holds more than one entry, and on a master
  playlist with at most one custom tag, any two calls on the same state return the same
  text.
\<close>

theorem Encode_deterministic:
  "(\<exists>buf. MediaPlaylist_Encode lib p buf) \<and>
   (\<exists>buf. MasterPlaylist_Encode lib m buf) \<and>
   (MediaPlaylist_Encode lib p buf \<longleftrightarrow>
      (\<exists>cs visits. range_map (Custom p) cs \<and>
         list_all2 visit_of (map (heap p) (Segments p)) visits \<and>
         buf = MediaPlaylist_Encode_with lib p cs visits)) \<and>
   (MasterPlaylist_Encode lib m buf \<longleftrightarrow>
      (\<exists>cs. range_map (M_Custom m) cs \<and> buf = MasterPlaylist_Encode_with lib m cs)) \<and>
   (single_entry_playlist p \<and> MediaPlaylist_Encode lib p buf1 \<and> MediaPlaylist_Encode lib p buf2
      \<longrightarrow> buf1 = buf2) \<and>
   (single_entry (M_Custom m) \<and> MasterPlaylist_Encode lib m buf1 \<and>
    MasterPlaylist_Encode lib m buf2 \<longrightarrow> buf1 = buf2)"
proof (intro conjI)
  show "MediaPlaylist_Encode lib p buf \<longleftrightarrow>
      (\<exists>cs visits. range_map (Custom p) cs \<and>
         list_all2 visit_of (map (heap p) (Segments p)) visits \<and>
         buf = MediaPlaylist_Encode_with lib p cs visits)"
    by (simp only: MediaPlaylist_Encode_iff segments_def)
  show "MasterPlaylist_Encode lib m buf \<longleftrightarrow>
      (\<exists>cs. range_map (M_Custom m) cs \<and> buf = MasterPlaylist_Encode_with lib m cs)"
    by (rule MasterPlaylist_Encode_iff)
qed (use MediaPlaylist_Encode_total MasterPlaylist_Encode_total
      MediaPlaylist_Encode_unique MasterPlaylist_Encode_unique in blast)+

theorem Encode_deterministic_witness:
  "single_entry_playlist example_single \<and>
   MediaPlaylist_Encode example_lib example_single example_single_text \<and>
   MediaPlaylist_Encode example_lib example_single
     (MediaPlaylist_Encode_with example_lib example_single [(''#A:'', example_tagA)]
        [([], []), ([], []), ([], [])]) \<and>
   example_single_text =
     MediaPlaylist_Encode_with example_lib example_single [(''#A:'', example_tagA)]
        [([], []), ([], []), ([], [])] \<and>
   single_entry (M_Custom example_master) \<and>
   MasterPlaylist_Encode example_lib example_master example_master_text \<and>
   MasterPlaylist_Encode example_lib example_master
     (MasterPlaylist_Encode_with example_lib example_master []) \<and>
   example_master_text = MasterPlaylist_Encode_with example_lib example_master []"
proof -
  have 1: "single_entry_playlist example_single" by (rule example_single_single_entry)
  have 2: "MediaPlaylist_Encode example_lib example_single example_single_text"
    by (rule example_single_Encode)
  have 3: "MediaPlaylist_Encode example_lib example_single
     (MediaPlaylist_Encode_with example_lib example_single [(''#A:'', example_tagA)]
        [([], []), ([], []), ([], [])])"
    using 2 by (simp only: example_single_Encode_with)
  have 4: "single_entry (M_Custom example_master)"
    by (simp add: example_master_fields single_entry_simps)
  have 5: "MasterPlaylist_Encode example_lib example_master example_master_text"
    by (rule example_master_Encode)
  have 6: "MasterPlaylist_Encode example_lib example_master
     (MasterPlaylist_Encode_with example_lib example_master [])"
    using 5 by (simp only: example_master_Encode_with)
  have "example_single_text =
     MediaPlaylist_Encode_with example_lib example_single [(''#A:'', example_tagA)]
        [([], []), ([], []), ([], [])]"
    using Encode_deterministic [of example_lib example_single example_master _
        example_single_text
        "MediaPlaylist_Encode_with example_lib example_single [(''#A:'', example_tagA)]
           [([], []), ([], []), ([], [])]",
        THEN conjunct2, THEN conjunct2, THEN conjunct2, THEN conjunct2, THEN conjunct1] 1 2 3
    by (simp only: simp_thms)
  moreover have "example_master_text = MasterPlaylist_Encode_with example_lib example_master []"
    using Encode_deterministic [of example_lib example_single example_master _
        example_master_text "MasterPlaylist_Encode_with example_lib example_master []",
        THEN conjunct2, THEN conjunct2, THEN conjunct2, THEN conjunct2, THEN conjunct2] 4 5 6
    by (simp only: simp_thms)
  ultimately show ?thesis using 1 2 3 4 5 6 by blast
qed

text \<open>
  The claim as stated fails as soon as a map holds two entries.  The media playlist
  \<open>example_tagged\<close> has no segments and the two custom tags \<open>#A:\<close> and \<open>#B:\<close>.  A
  call of \<open>Encode\<close> that visits \<open>#A:\<close> first returns \<open>example_text_AB\<close>, a call that
  visits \<open>#B:\<close> first returns \<open>example_text_BA\<close>; Go allows both visits, and the two
  texts differ.
\<close>

theorem Encode_order_counterexample:
  "MediaPlaylist_Encode example_lib example_tagged example_text_AB \<and>
   MediaPlaylist_Encode example_lib example_tagged example_text_BA \<and>
   example_text_AB \<noteq> example_text_BA"
proof -
  have f: "Segments example_tagged = []" "ver example_tagged = 3"
    "MediaType example_tagged = MediaType_None" "SeqNo example_tagged = 0"
    "TargetDuration example_tagged = 0" "StartTime example_tagged = 0"
    "DiscontinuitySeq example_tagged = 0" "Iframe example_tagged = False"
    "WV example_tagged = None" "Closed example_tagged = False"
    "Custom example_tagged = fmupd ''#B:'' example_tagB (fmupd ''#A:'' example_tagA fmempty)"
    by (simp_all add: example_tagged_def SetCustomTag_def NewMediaPlaylist_def
        example_tagA_def example_tagB_def)
  have ab: "range_map (Custom example_tagged) [(''#B:'', example_tagB), (''#A:'', example_tagA)]"
    by (simp add: range_map_def f)
  have "fmupd ''#A:'' example_tagA (fmupd ''#B:'' example_tagB fmempty) =
      fmupd ''#B:'' example_tagB (fmupd ''#A:'' example_tagA fmempty)"
    by (rule fmap_ext) auto
  then have ba: "range_map (Custom example_tagged) [(''#A:'', example_tagA), (''#B:'', example_tagB)]"
    by (simp add: range_map_def f)
  have v: "list_all2 visit_of (segments example_tagged) []" by (simp add: f segments_def)
  have "MediaPlaylist_Encode_with example_lib example_tagged
      [(''#A:'', example_tagA), (''#B:'', example_tagB)] [] = example_text_AB"
    by (simp add: MediaPlaylist_Encode_with_def example_text_AB_def f encode_media_header_def
        encode_media_tags_def encode_WV_def encode_custom_def text_of_def example_tagA_def
        example_tagB_def strver_def FormatUint.simps FormatInt_def int64_def segments_def)
  moreover have "MediaPlaylist_Encode_with example_lib example_tagged
      [(''#B:'', example_tagB), (''#A:'', example_tagA)] [] = example_text_BA"
    by (simp add: MediaPlaylist_Encode_with_def example_text_BA_def f encode_media_header_def
        encode_media_tags_def encode_WV_def encode_custom_def text_of_def example_tagA_def
        example_tagB_def strver_def FormatUint.simps FormatInt_def int64_def segments_def)
  moreover have "example_text_AB \<noteq> example_text_BA"
    by (simp add: example_text_AB_def example_text_BA_def)
  ultimately show ?thesis
    using MediaPlaylist_Encode_with_sound [OF ba v, of example_lib]
      MediaPlaylist_Encode_with_sound [OF ab v, of example_lib]
    by simp
qed

subsection \<open>Alternative renditions of a master playlist\<close>

text \<open>
  Claim C7, on the input on which the code departs from it.  The only variant of
  \<open>example_master\<close> has two alternatives that differ in group id and name (group
  \<open>audio-en\<close> with name \<open>US\<close>, group \<open>audio\<close> with name \<open>en-US\<close>).  The key that
  \<open>Encode\<close> builds by joining the four fields with \<open>-\<close> is the same for both, so the
  loop takes the second for already written: only the first gets its \<open>#EXT-X-MEDIA\<close>
  tag, and the text returned has a single such line.
\<close>

theorem altKey_collision:
  "Alternatives (Params (hd (Variants example_master))) = [example_alt1, example_alt2] \<and>
   GroupId example_alt1 \<noteq> GroupId example_alt2 \<and>
   Alt_Name example_alt1 \<noteq> Alt_Name example_alt2 \<and>
   altKey example_alt1 = altKey example_alt2 \<and>
   lines_with EXT_X_MEDIA
     (encode_variants example_lib example_master Map.empty (Variants example_master)) =
     [encode_alternative example_alt1] \<and>
   MasterPlaylist_Encode example_lib example_master example_master_text"
proof -
  have "lines_with EXT_X_MEDIA
     (encode_variants example_lib example_master Map.empty (Variants example_master)) =
     [encode_alternative example_alt1]"
    unfolding example_master_lines
    by (simp add: lines_with_def encode_alternative_def encode_stream_inf_def)
  moreover have "Alternatives (Params (hd (Variants example_master))) =
      [example_alt1, example_alt2]"
    by (simp add: example_master_fields example_params_def)
  moreover have "GroupId example_alt1 \<noteq> GroupId example_alt2"
    "Alt_Name example_alt1 \<noteq> Alt_Name example_alt2"
    by (simp_all add: example_alt1_def example_alt2_def)
  ultimately show ?thesis
    using example_master_Encode example_altKey by simp
qed

end
